theory Spec2Isabelle
  imports Main "HOL-Library.Word"
begin

section \<open>JavaScript values and built-ins used by the webhook handlers\<close>

text \<open>
  Strings are lists of code units; a \<^typ>\<open>char\<close> stands for one code unit, so the model
  covers strings whose code units are below 256. Every string operation the handlers use
  (\<open>includes\<close>, \<open>endsWith\<close>, \<open>replace\<close> with a one-unit character class, \<open>substring\<close>,
  \<open>split\<close>) works unit by unit. Request fields have the types the handlers expect
  (strings, booleans, arrays of turns); an absent or \<open>null\<close> field is \<open>None\<close>.
\<close>

type_synonym bytes = "8 word list"

datatype js_error = Error (message: string)

definition type_error :: js_error where
  "type_error = Error ''TypeError''"

text \<open>Truthiness of an optional string: \<open>undefined\<close>, \<open>null\<close> and \<open>""\<close> are falsy.\<close>

definition truthy :: "string option \<Rightarrow> bool" where
  "truthy x = (case x of None \<Rightarrow> False | Some s \<Rightarrow> s \<noteq> [])"

text \<open>\<open>x || d\<close> on an optional string.\<close>

definition or_default :: "string option \<Rightarrow> string \<Rightarrow> string" where
  "or_default x d = (case x of None \<Rightarrow> d | Some s \<Rightarrow> if s = [] then d else s)"

text \<open>\<open>x ?? d\<close> on an optional string.\<close>

definition nullish_default :: "string option \<Rightarrow> string \<Rightarrow> string" where
  "nullish_default x d = (case x of None \<Rightarrow> d | Some s \<Rightarrow> s)"

text \<open>\<open>s.startsWith(t)\<close>, \<open>s.includes(t)\<close>, \<open>s.endsWith(t)\<close>.\<close>

definition starts_with :: "string \<Rightarrow> string \<Rightarrow> bool" where
  "starts_with s t = (take (length t) s = t)"

fun includes_js :: "string \<Rightarrow> string \<Rightarrow> bool" where
  "includes_js [] t = (t = [])"
| "includes_js (c # cs) t = (starts_with (c # cs) t \<or> includes_js cs t)"

definition ends_with :: "string \<Rightarrow> string \<Rightarrow> bool" where
  "ends_with s t = (length t \<le> length s \<and> drop (length s - length t) s = t)"

text \<open>
  The character class \<open>[a-z0-9]\<close> under the flags \<open>gi\<close> (no \<open>u\<close> flag): a code unit is in
  the class iff it is an ASCII letter of either case or an ASCII digit.
\<close>

definition is_digit :: "char \<Rightarrow> bool" where
  "is_digit c = (c \<in> set ''0123456789'')"

definition is_alnum :: "char \<Rightarrow> bool" where
  "is_alnum c =
     (c \<in> set ''abcdefghijklmnopqrstuvwxyzABCDEFGHIJKLMNOPQRSTUVWXYZ0123456789'')"

text \<open>\<open>s.replace(/[^a-z0-9]/gi, '_').substring(0, 50)\<close>\<close>

definition safeTitle :: "string \<Rightarrow> string" where
  "safeTitle title = take 50 (map (\<lambda>c. if is_alnum c then c else CHR ''_'') title)"

text \<open>\<open>s.includes(',') ? s.split(',')[1] : s\<close>\<close>

definition base64Data :: "string \<Rightarrow> string" where
  "base64Data audioBase64 =
     (if CHR '','' \<in> set audioBase64
      then takeWhile (\<lambda>c. c \<noteq> CHR '','') (tl (dropWhile (\<lambda>c. c \<noteq> CHR '','') audioBase64))
      else audioBase64)"

text \<open>
  Numbers. The numbers the handlers compute are \<open>NaN\<close> and integers. An integer of
  magnitude at most \<open>2^53\<close> is a Number exactly (\<open>Num\<close>) and prints in plain decimal. A
  larger integer becomes the double JavaScript rounds it to: the model carries it as
  \<open>Big\<close> without computing the double, never equal to a \<open>Num\<close>, and leaves its printing
  to the platform (the first argument of \<open>show_number\<close>). The clock value of
  \<open>Date.now()\<close> and the length of a buffer are integers below \<open>2^53\<close> and print in plain
  decimal.
\<close>

datatype js_number = NaN | Num int | Big int

definition digit_char :: "nat \<Rightarrow> char" where
  "digit_char d = ''0123456789abcdef'' ! d"

function show_nat :: "nat \<Rightarrow> string" where
  "show_nat n = (if n < 10 then [digit_char n] else show_nat (n div 10) @ [digit_char (n mod 10)])"
  by pat_completeness auto
termination
  by (relation "measure id") auto

declare show_nat.simps [simp del]

definition show_int :: "int \<Rightarrow> string" where
  "show_int i = (if i < 0 then CHR ''-'' # show_nat (nat (- i)) else show_nat (nat i))"

definition show_number :: "(int \<Rightarrow> string) \<Rightarrow> js_number \<Rightarrow> string" where
  "show_number big x = (case x of NaN \<Rightarrow> ''NaN'' | Num i \<Rightarrow> show_int i | Big i \<Rightarrow> big i)"

text \<open>
  \<open>parseInt(s)\<close> with no radix: leading white space is skipped, a sign is read, a
  \<open>0x\<close>/\<open>0X\<close> prefix selects radix 16, the longest run of digits is read and the rest
  ignored; no digit at all gives \<open>NaN\<close>. An integer of magnitude above \<open>2^53\<close> is \<open>Big\<close>.
\<close>

definition is_white_space :: "char \<Rightarrow> bool" where
  "is_white_space c = (of_char c \<in> {9, 10, 11, 12, 13, 32, 160 :: nat})"

definition digit_value :: "char \<Rightarrow> nat option" where
  "digit_value c =
     (let n = of_char c :: nat in
      if 48 \<le> n \<and> n \<le> 57 then Some (n - 48)
      else if 97 \<le> n \<and> n \<le> 122 then Some (n - 87)
      else if 65 \<le> n \<and> n \<le> 90 then Some (n - 55)
      else None)"

definition is_radix_digit :: "nat \<Rightarrow> char \<Rightarrow> bool" where
  "is_radix_digit r c = (case digit_value c of None \<Rightarrow> False | Some d \<Rightarrow> d < r)"

definition digits_value :: "nat \<Rightarrow> string \<Rightarrow> nat" where
  "digits_value r ds = foldl (\<lambda>acc c. acc * r + the (digit_value c)) 0 ds"

definition parseInt :: "string \<Rightarrow> js_number" where
  "parseInt inputString =
     (let s = dropWhile is_white_space inputString;
          negative = (s \<noteq> [] \<and> hd s = CHR ''-'');
          s = (if s \<noteq> [] \<and> (hd s = CHR ''+'' \<or> hd s = CHR ''-'') then tl s else s);
          hex = (starts_with s ''0x'' \<or> starts_with s ''0X'');
          r = (if hex then 16 else 10);
          s = (if hex then drop 2 s else s);
          z = takeWhile (is_radix_digit r) s
      in if z = [] then NaN
         else (let mathInt = (if negative then - 1 else 1) * int (digits_value r z)
               in if \<bar>mathInt\<bar> \<le> 9007199254740992 then Num mathInt else Big mathInt))"

section \<open>Data model\<close>

text \<open>JSON values, as \<open>JSON.parse\<close> returns them.\<close>

datatype json =
    JNull
  | JBool bool
  | JNum int
  | JStr string
  | JArr "json list"
  | JObj "(string \<times> json) list"

text \<open>One turn of a conversation: \<open>{ speaker, text }\<close>.\<close>

record turn =
  speaker :: string
  utterance :: string

text \<open>One input of the synthesis request: \<open>{ text, voiceId }\<close>.\<close>

record dialogue_input =
  input_text :: string
  voiceId :: string

text \<open>The \<open>Result\<close> of \<open>createDialogue\<close>: \<open>{ ok: true, value }\<close> or \<open>{ ok: false, error }\<close>.\<close>

datatype 'a result = Ok 'a | Err string

text \<open>The options given to \<open>new MinIO.Client\<close>.\<close>

record client_options =
  endPoint :: string
  port :: js_number
  useSSL :: bool
  accessKey :: string
  secretKey :: string

text \<open>The fields the handler reads of a parsed \<open>URL\<close>.\<close>

record url =
  hostname :: string
  url_port :: string
  protocol :: string

text \<open>What \<open>uploadToMinIOStorage\<close> resolves to: \<open>{ success, url?, error? }\<close>.\<close>

record upload_result =
  success :: bool
  upload_url :: "string option"
  upload_error :: "string option"

subsection \<open>Requests and responses\<close>

record approve_request =
  req_jobId :: "string option"
  req_conversation :: "turn list option"
  req_title :: "string option"
  req_voice1 :: "string option"
  req_voice2 :: "string option"
  req_uploadToMinIO :: "bool option"

record approve_success =
  ok_success :: bool
  ok_jobId :: string
  downloadUrl :: string
  minioUrl :: "string option"
  filename :: string
  ok_message :: string

record process_request =
  preq_jobId :: "string option"
  preq_transcript :: "string option"
  preq_title :: "string option"
  preq_language :: "string option"
  preq_metadata :: "json option"

record process_success =
  p_success :: bool
  p_jobId :: string
  p_conversation :: "turn list"
  p_title :: string
  p_language :: string
  approvalUrl :: string
  p_message :: string

record transcript_request =
  treq_transcript :: "string option"
  treq_title :: "string option"
  treq_language :: "string option"
  treq_metadata :: "json option"

record next_step_body =
  ns_jobId :: string
  ns_transcript :: string
  ns_title :: string
  ns_language :: string
  ns_metadata :: json

record next_step =
  ns_url :: string
  ns_method :: string
  ns_body :: next_step_body

record transcript_success =
  t_success :: bool
  t_jobId :: string
  t_message :: string
  t_language :: string
  nextStep :: next_step

datatype body =
    ErrorBody string
  | ApproveBody approve_success
  | ProcessBody process_success
  | TranscriptBody transcript_success

text \<open>
  \<open>NextResponse.json(body, { status })\<close> (status 200 when none is given) and
  \<open>new NextResponse(buffer, { headers })\<close>.
\<close>

datatype response =
    JsonResponse nat body
  | FileResponse bytes "(string \<times> string) list"

section \<open>Effects\<close>

text \<open>
  Every call that leaves the handler is an event. A computation yields either the error
  it threw or its result, together with the events it performed, in order. Logging
  (\<open>console.log\<close>, \<open>console.error\<close>, \<open>console.warn\<close>) is not recorded.
\<close>

datatype event =
    CreateDialogue "dialogue_input list"
  | FsAccess
  | FsMkdir
  | FsWriteFile string bytes
  | FsReaddir
  | FsReadFile string
  | StreamObject string bool string string string string
  | ImportMinio
  | NewClient client_options
  | BucketExists string
  | MakeBucket string string
  | SetBucketPolicy string
  | PutObject string string bytes nat
  | GetBucketPolicy string
  | PresignedGetObject string string nat

fun is_minio_event :: "event \<Rightarrow> bool" where
  "is_minio_event ImportMinio = True"
| "is_minio_event (NewClient _) = True"
| "is_minio_event (BucketExists _) = True"
| "is_minio_event (MakeBucket _ _) = True"
| "is_minio_event (SetBucketPolicy _) = True"
| "is_minio_event (PutObject _ _ _ _) = True"
| "is_minio_event (GetBucketPolicy _) = True"
| "is_minio_event (PresignedGetObject _ _ _) = True"
| "is_minio_event _ = False"

type_synonym 'a io = "(js_error + 'a) \<times> event list"

definition ret :: "'a \<Rightarrow> 'a io" where
  "ret a = (Inr a, [])"

definition lift :: "js_error + 'a \<Rightarrow> 'a io" where
  "lift r = (r, [])"

definition call :: "event \<Rightarrow> js_error + 'a \<Rightarrow> 'a io" where
  "call ev outcome = (outcome, [ev])"

definition bnd :: "'a io \<Rightarrow> ('a \<Rightarrow> 'b io) \<Rightarrow> 'b io" where
  "bnd m f =
     (case m of
        (Inl e, t) \<Rightarrow> (Inl e, t)
      | (Inr a, t) \<Rightarrow> (case f a of (r, t') \<Rightarrow> (r, t @ t')))"

text \<open>\<open>try { m } catch (e) { h e }\<close> inside a computation.\<close>

definition try_catch :: "'a io \<Rightarrow> (js_error \<Rightarrow> 'a io) \<Rightarrow> 'a io" where
  "try_catch m h =
     (case m of
        (Inl e, t) \<Rightarrow> (case h e of (r, t') \<Rightarrow> (r, t @ t'))
      | (Inr a, t) \<Rightarrow> (Inr a, t))"

text \<open>A handler's outermost \<open>try { m } catch (e) { return h e }\<close>.\<close>

definition handle :: "'a io \<Rightarrow> (js_error \<Rightarrow> 'a) \<Rightarrow> 'a \<times> event list" where
  "handle m h = (case m of (Inl e, t) \<Rightarrow> (h e, t) | (Inr a, t) \<Rightarrow> (a, t))"

subsection \<open>The world outside the handlers\<close>

text \<open>
  The MinIO client library: what the dynamic import, the constructor and each client
  method answer. \<open>setBucketPolicy\<close> is always called with the fixed public-read policy
  document of the bucket and \<open>putObject\<close> with the content type \<open>audio/mpeg\<close>, so the
  model does not pass them.
\<close>

record minio =
  import_minio :: "js_error + unit"
  new_Client :: "client_options \<Rightarrow> js_error + unit"
  bucketExists :: "string \<Rightarrow> js_error + bool"
  makeBucket :: "string \<Rightarrow> string \<Rightarrow> js_error + unit"
  setBucketPolicy :: "string \<Rightarrow> js_error + unit"
  putObject :: "string \<Rightarrow> string \<Rightarrow> bytes \<Rightarrow> nat \<Rightarrow> js_error + unit"
  getBucketPolicy :: "string \<Rightarrow> js_error + string"
  presignedGetObject :: "string \<Rightarrow> string \<Rightarrow> nat \<Rightarrow> js_error + string"

text \<open>\<open>fs.promises\<close> on the archive directory; file names are relative to it.\<close>

record fs =
  access :: "js_error + unit"
  mkdir :: "js_error + unit"
  writeFile :: "string \<Rightarrow> bytes \<Rightarrow> js_error + unit"
  readdir :: "js_error + string list"
  readFile :: "string \<Rightarrow> js_error + bytes"

text \<open>
  A chunk of \<open>partialObjectStream\<close>: its \<open>conversation\<close>, when it is an array, with the
  \<open>speaker\<close> and \<open>text\<close> each item has so far.
\<close>

type_synonym chunk = "(string option \<times> string option) list option"

text \<open>
  The rest: the environment variables, the clock, \<open>Math.random().toString(36)\<close>, the
  speech and text providers, the platform's parsers and decoder, and what the platform
  prints for the double of an integer above \<open>2^53\<close>.
\<close>

record world =
  env :: "string \<Rightarrow> string option"
  Date_now :: int
  random_toString36 :: string
  createDialogue :: "dialogue_input list \<Rightarrow> js_error + string result"
  streamObject :: "string \<Rightarrow> bool \<Rightarrow> string \<Rightarrow> string \<Rightarrow> string \<Rightarrow> string \<Rightarrow> js_error + chunk list"
  URL_parse :: "string \<Rightarrow> js_error + url"
  JSON_parse :: "string \<Rightarrow> js_error + json"
  Buffer_from_base64 :: "string \<Rightarrow> bytes"
  Number_toString :: "int \<Rightarrow> string"
  the_fs :: fs
  the_minio :: minio

section \<open>The approve stage\<close>

text \<open>\<open>ensureArchiveDir\<close>: \<open>mkdir\<close> runs only when \<open>access\<close> throws.\<close>

definition ensureArchiveDir :: "world \<Rightarrow> unit io" where
  "ensureArchiveDir w =
     try_catch (call FsAccess (access (the_fs w))) (\<lambda>_. call FsMkdir (mkdir (the_fs w)))"

text \<open>The conversion of the conversation to dialogue inputs (the \<open>conversation.map\<close>).\<close>

definition dialogueInputs :: "turn list \<Rightarrow> string \<Rightarrow> string \<Rightarrow> dialogue_input list" where
  "dialogueInputs conversation voice1Id voice2Id =
     map (\<lambda>item. \<lparr>input_text = utterance item,
                   voiceId = (if speaker item = ''Speaker1'' then voice1Id else voice2Id)\<rparr>)
       conversation"

text \<open>
  The endpoint parsing of \<open>uploadToMinIOStorage\<close>: the values of \<open>endPoint\<close>, \<open>port\<close> and
  \<open>useSSL\<close> when the client is constructed.
\<close>

definition resolveTarget :: "world \<Rightarrow> string \<times> js_number \<times> bool" where
  "resolveTarget w =
     (let endPoint = or_default (env w ''MINIO_ENDPOINT'') ''minio2-api.aihub.ovh'';
          port = parseInt (or_default (env w ''MINIO_PORT'') ''443'');
          useSSL = (env w ''MINIO_USE_SSL'' = Some ''true'')
      in if includes_js endPoint ''://'' then
           (case URL_parse w endPoint of
              Inr u \<Rightarrow>
                (hostname u,
                 (if url_port u \<noteq> [] then parseInt (url_port u)
                  else if protocol u = ''https:'' then Num 443 else Num 80),
                 protocol u = ''https:'')
            | Inl e \<Rightarrow> (endPoint, port, useSSL))
         else if port = Num 443 then (endPoint, port, True)
         else (endPoint, port, useSSL))"

text \<open>
  The policy test of the URL generation:
  \<open>policyObj.Statement?.some(stmt => stmt.Effect === 'Allow' && stmt.Principal?.AWS?.includes('*'))\<close>.
  Reading a property of \<open>null\<close> and calling what is not a function throw a TypeError; a
  property that is missing is \<open>undefined\<close> (\<open>None\<close>).
\<close>

fun opt_prop :: "json option \<Rightarrow> string \<Rightarrow> json option" where
  "opt_prop (Some (JObj kvs)) k = map_of kvs k"
| "opt_prop _ k = None"

fun opt_includes_star :: "json option \<Rightarrow> js_error + bool" where
  "opt_includes_star None = Inr False"
| "opt_includes_star (Some JNull) = Inr False"
| "opt_includes_star (Some (JStr s)) = Inr (includes_js s ''*'')"
| "opt_includes_star (Some (JArr xs)) = Inr (JStr ''*'' \<in> set xs)"
| "opt_includes_star (Some _) = Inl type_error"

definition stmtIsPublic :: "json \<Rightarrow> js_error + bool" where
  "stmtIsPublic stmt =
     (if stmt = JNull then Inl type_error
      else if opt_prop (Some stmt) ''Effect'' = Some (JStr ''Allow'')
        then opt_includes_star (opt_prop (opt_prop (Some stmt) ''Principal'') ''AWS'')
        else Inr False)"

fun some_js :: "('a \<Rightarrow> js_error + bool) \<Rightarrow> 'a list \<Rightarrow> js_error + bool" where
  "some_js f [] = Inr False"
| "some_js f (x # xs) =
     (case f x of Inl e \<Rightarrow> Inl e | Inr True \<Rightarrow> Inr True | Inr False \<Rightarrow> some_js f xs)"

fun isPublic :: "json \<Rightarrow> js_error + bool" where
  "isPublic JNull = Inl type_error"
| "isPublic (JObj kvs) =
     (case map_of kvs ''Statement'' of
        None \<Rightarrow> Inr False
      | Some JNull \<Rightarrow> Inr False
      | Some (JArr stmts) \<Rightarrow> some_js stmtIsPublic stmts
      | Some _ \<Rightarrow> Inl type_error)"
| "isPublic _ = Inr False"

text \<open>\<open>`${protocol}://${endPoint}:${port}/${bucketName}/${filename}`\<close>\<close>

definition publicUrl :: "world \<Rightarrow> string \<times> js_number \<times> bool \<Rightarrow> string \<Rightarrow> string \<Rightarrow> string" where
  "publicUrl w target bucketName file =
     (case target of (host, port_number, ssl) \<Rightarrow>
        (if ssl then ''https'' else ''http'') @ ''://'' @ host @ '':''
          @ show_number (Number_toString w) port_number @ ''/'' @ bucketName @ ''/'' @ file)"

text \<open>The URL generation of \<open>uploadToMinIOStorage\<close>, after \<open>putObject\<close>.\<close>

definition generateUrl :: "world \<Rightarrow> string \<times> js_number \<times> bool \<Rightarrow> string \<Rightarrow> string \<Rightarrow> string io" where
  "generateUrl w target bucketName file =
     try_catch
       (bnd (call (GetBucketPolicy bucketName) (getBucketPolicy (the_minio w) bucketName)) (\<lambda>policy.
        bnd (lift (JSON_parse w policy)) (\<lambda>policyObj.
        bnd (lift (isPublic policyObj)) (\<lambda>public.
          if public then ret (publicUrl w target bucketName file)
          else call (PresignedGetObject bucketName file (7 * 24 * 60 * 60))
                 (presignedGetObject (the_minio w) bucketName file (7 * 24 * 60 * 60))))))
       (\<lambda>_. ret (publicUrl w target bucketName file))"

text \<open>
  The values \<open>uploadToMinIOStorage\<close> computes before it talks to the store: the client
  options, the bucket name, and the file name \<open>`${safeTitle}_${jobId}.mp3`\<close> (also the
  local file name of \<open>POST\<close>).
\<close>

definition clientOptions :: "world \<Rightarrow> client_options" where
  "clientOptions w =
     (case resolveTarget w of (host, port_number, ssl) \<Rightarrow>
        \<lparr>endPoint = host, port = port_number, useSSL = ssl,
         accessKey = nullish_default (env w ''MINIO_ACCESS_KEY'') [],
         secretKey = nullish_default (env w ''MINIO_SECRET_KEY'') []\<rparr>)"

definition bucketName :: "world \<Rightarrow> string" where
  "bucketName w = or_default (env w ''MINIO_BUCKET_NAME'') ''podcast''"

definition artifactFilename :: "string \<Rightarrow> string \<Rightarrow> string" where
  "artifactFilename title jobId = safeTitle title @ ''_'' @ jobId @ ''.mp3''"

definition uploadToMinIOStorage :: "world \<Rightarrow> string \<Rightarrow> string \<Rightarrow> string \<Rightarrow> upload_result io" where
  "uploadToMinIOStorage w audioBase64 title jobId =
     try_catch
       (bnd (call ImportMinio (import_minio (the_minio w))) (\<lambda>_.
        if \<not> truthy (env w ''MINIO_ACCESS_KEY'') \<or> \<not> truthy (env w ''MINIO_SECRET_KEY'') then
          ret \<lparr>success = False, upload_url = None,
               upload_error = Some ''MinIO not configured. Set MINIO_ACCESS_KEY and MINIO_SECRET_KEY environment variables.''\<rparr>
        else
          bnd (call (NewClient (clientOptions w)) (new_Client (the_minio w) (clientOptions w))) (\<lambda>_.
          bnd (call (BucketExists (bucketName w)) (bucketExists (the_minio w) (bucketName w))) (\<lambda>exists.
          bnd (if \<not> exists
               then call (MakeBucket (bucketName w) ''us-east-1'')
                      (makeBucket (the_minio w) (bucketName w) ''us-east-1'')
               else ret ()) (\<lambda>_.
          bnd (try_catch
                 (call (SetBucketPolicy (bucketName w)) (setBucketPolicy (the_minio w) (bucketName w)))
                 (\<lambda>policyError. ret ())) (\<lambda>_.
          let audioBuffer = Buffer_from_base64 w (base64Data audioBase64);
              file = artifactFilename title jobId
          in
          bnd (call (PutObject (bucketName w) file audioBuffer (length audioBuffer))
                 (putObject (the_minio w) (bucketName w) file audioBuffer (length audioBuffer))) (\<lambda>_.
          bnd (generateUrl w (resolveTarget w) (bucketName w) file) (\<lambda>url.
          ret \<lparr>success = True, upload_url = Some url, upload_error = None\<rparr>))))))))
       (\<lambda>error. ret \<lparr>success = False, upload_url = None,
                      upload_error = Some (or_default (Some (message error)) ''Failed to upload to MinIO'')\<rparr>)"

text \<open>The local download endpoint of a job.\<close>

definition localDownloadUrl :: "world \<Rightarrow> string \<Rightarrow> string" where
  "localDownloadUrl w jobId =
     or_default (env w ''NEXT_PUBLIC_APP_URL'') ''http://localhost:3000''
       @ ''/api/webhook/download/'' @ jobId"

text \<open>
  The upload step of \<open>POST\<close> (\<open>let minioUrl = null; if (uploadToMinIO) { try { ... } catch
  { ... } }\<close>): the value of \<open>minioUrl\<close> after it.
\<close>

definition uploadStep :: "world \<Rightarrow> approve_request \<Rightarrow> string \<Rightarrow> string \<Rightarrow> string option io" where
  "uploadStep w req audioBase64 jobId =
     (if req_uploadToMinIO req = Some True then
        try_catch
          (bnd (uploadToMinIOStorage w audioBase64
                  (nullish_default (req_title req) ''podcast'') jobId) (\<lambda>minioResult.
           ret (if success minioResult then upload_url minioResult else None)))
          (\<lambda>minioError. ret None)
      else ret None)"

text \<open>
  \<open>POST\<close> of the approve route. The body is what \<open>req.json()\<close> resolves to, or the error
  it rejects with.
\<close>

definition POST_approve :: "world \<Rightarrow> js_error + approve_request \<Rightarrow> response \<times> event list" where
  "POST_approve w body =
     handle
       (bnd (lift body) (\<lambda>req.
        (case req_conversation req of
          None \<Rightarrow> ret (JsonResponse 400 (ErrorBody ''Valid conversation is required''))
        | Some conversation \<Rightarrow>
        (if conversation = [] then
          ret (JsonResponse 400 (ErrorBody ''Valid conversation is required''))
        else
        (case req_jobId req of
          None \<Rightarrow> ret (JsonResponse 400 (ErrorBody ''Job ID is required''))
        | Some jobId \<Rightarrow>
        (if jobId = [] then ret (JsonResponse 400 (ErrorBody ''Job ID is required''))
        else
        (let voice1Id = or_default (req_voice1 req) ''FF7KdobWPaiR0vkcALHF'';
             voice2Id = or_default (req_voice2 req) ''BpjGufoPiobT79j2vtj4'';
             inputs = dialogueInputs conversation voice1Id voice2Id
        in
        bnd (call (CreateDialogue inputs) (createDialogue w inputs)) (\<lambda>result.
        (case result of
          Err e \<Rightarrow> ret (JsonResponse 500 (ErrorBody e))
        | Ok audioBase64 \<Rightarrow>
        bnd (ensureArchiveDir w) (\<lambda>_.
        (let audioBuffer = Buffer_from_base64 w (base64Data audioBase64);
             file = artifactFilename (or_default (req_title req) ''podcast'') jobId
        in
        bnd (call (FsWriteFile file audioBuffer) (writeFile (the_fs w) file audioBuffer)) (\<lambda>_.
        bnd (uploadStep w req audioBase64 jobId) (\<lambda>minio_url.
        ret (JsonResponse 200 (ApproveBody
          \<lparr>ok_success = True,
           ok_jobId = jobId,
           downloadUrl = or_default minio_url (localDownloadUrl w jobId),
           minioUrl = minio_url,
           filename = file,
           ok_message = ''Audio generated successfully''\<rparr>)))))))))))))))
       (\<lambda>error. JsonResponse 500 (ErrorBody ''Failed to generate audio''))"

section \<open>The receive and process stages\<close>

definition validLanguages :: "string list" where
  "validLanguages =
     [''en'', ''pl'', ''es'', ''fr'', ''de'', ''it'', ''pt'', ''ru'', ''ja'', ''ko'', ''zh'']"

definition languageNames :: "(string \<times> string) list" where
  "languageNames =
     [(''en'', ''English''), (''pl'', ''Polish''), (''es'', ''Spanish''), (''fr'', ''French''),
      (''de'', ''German''), (''it'', ''Italian''), (''pt'', ''Portuguese''), (''ru'', ''Russian''),
      (''ja'', ''Japanese''), (''ko'', ''Korean''), (''zh'', ''Chinese'')]"

text \<open>
  The language of the process route: the destructuring default \<open>language = 'en'\<close>, then
  \<open>validLanguages.includes(language) ? language : 'en'\<close>.
\<close>

definition selectedLanguage :: "string option \<Rightarrow> string" where
  "selectedLanguage lang =
     (let language = (case lang of None \<Rightarrow> ''en'' | Some l \<Rightarrow> l)
      in if language \<in> set validLanguages then language else ''en'')"

text \<open>
  The conversation collected from the stream: every chunk that has a conversation array
  replaces what was collected before, with \<open>item.speaker || ''\<close> and \<open>item.text || ''\<close>.
\<close>

definition collect :: "chunk list \<Rightarrow> turn list" where
  "collect chunks =
     foldl (\<lambda>fullConversation chunk.
              case chunk of
                None \<Rightarrow> fullConversation
              | Some items \<Rightarrow>
                  map (\<lambda>item. \<lparr>speaker = or_default (fst item) [],
                                utterance = or_default (snd item) []\<rparr>) items)
       [] chunks"

text \<open>
  The model name, \<open>useOpenRouter ? (process.env.OPENROUTER_MODEL || 'openai/gpt-4o-mini') :
  'gpt-4o-mini'\<close>, and the language name, \<open>languageNames[selectedLanguage] || 'English'\<close>.
\<close>

definition modelName :: "world \<Rightarrow> string" where
  "modelName w =
     (if truthy (env w ''OPENROUTER_API_KEY'')
      then or_default (env w ''OPENROUTER_MODEL'') ''openai/gpt-4o-mini''
      else ''gpt-4o-mini'')"

definition languageName :: "string \<Rightarrow> string" where
  "languageName selected = or_default (map_of languageNames selected) ''English''"

text \<open>
  \<open>POST\<close> of the process route. The \<open>StreamObject\<close> event carries the model name, whether
  OpenRouter is used, and the four values the prompt is built from: the language name,
  the selected language, the transcript and the title.
\<close>

definition POST_process :: "world \<Rightarrow> js_error + process_request \<Rightarrow> response \<times> event list" where
  "POST_process w body =
     handle
       (bnd (lift body) (\<lambda>req.
        (if \<not> truthy (preq_transcript req) \<or> \<not> truthy (preq_jobId req) then
           ret (JsonResponse 400 (ErrorBody ''Transcript and jobId are required''))
         else
         (let selected = selectedLanguage (preq_language req);
              openRouterApiKey = env w ''OPENROUTER_API_KEY'';
              openaiApiKey = env w ''OPENAI_API_KEY'';
              useOpenRouter = truthy openRouterApiKey
          in
          (if \<not> truthy openRouterApiKey \<and> \<not> truthy openaiApiKey then
             ret (JsonResponse 500
                    (ErrorBody ''Either OPENROUTER_API_KEY or OPENAI_API_KEY must be configured''))
           else
           (let transcript = nullish_default (preq_transcript req) [];
                title = or_default (preq_title req) ''Untitled Podcast''
            in
            bnd (call (StreamObject (modelName w) useOpenRouter (languageName selected) selected
                         transcript title)
                   (streamObject w (modelName w) useOpenRouter (languageName selected) selected
                      transcript title))
              (\<lambda>chunks.
            ret (JsonResponse 200 (ProcessBody
              \<lparr>p_success = True,
               p_jobId = nullish_default (preq_jobId req) [],
               p_conversation = collect chunks,
               p_title = title,
               p_language = selected,
               approvalUrl =
                 or_default (env w ''NEXT_PUBLIC_APP_URL'') ''http://localhost:3000''
                   @ ''/api/webhook/approve'',
               p_message = ''Conversation generated. Please review and approve.''\<rparr>)))))))))
       (\<lambda>error. JsonResponse 500 (ErrorBody ''Failed to process transcript''))"

text \<open>\<open>`job_${Date.now()}_${Math.random().toString(36).substring(7)}`\<close>\<close>

definition mintJobId :: "world \<Rightarrow> string" where
  "mintJobId w = ''job_'' @ show_int (Date_now w) @ ''_'' @ drop 7 (random_toString36 w)"

definition truthy_json :: "json \<Rightarrow> bool" where
  "truthy_json v =
     (case v of
        JNull \<Rightarrow> False
      | JBool b \<Rightarrow> b
      | JNum n \<Rightarrow> n \<noteq> 0
      | JStr s \<Rightarrow> s \<noteq> []
      | JArr _ \<Rightarrow> True
      | JObj _ \<Rightarrow> True)"

text \<open>\<open>POST\<close> of the transcript route (the receive stage).\<close>

definition POST_transcript :: "world \<Rightarrow> js_error + transcript_request \<Rightarrow> response \<times> event list" where
  "POST_transcript w body =
     handle
       (bnd (lift body) (\<lambda>req.
        (if \<not> truthy (treq_transcript req) then
           ret (JsonResponse 400 (ErrorBody ''Transcript is required''))
         else
         (let selected =
                (case treq_language req of
                   None \<Rightarrow> ''en''
                 | Some language \<Rightarrow>
                     if language \<noteq> [] \<and> language \<in> set validLanguages then language else ''en'');
              jobId = mintJobId w
          in
          ret (JsonResponse 200 (TranscriptBody
            \<lparr>t_success = True,
             t_jobId = jobId,
             t_message = ''Transcript received successfully'',
             t_language = selected,
             nextStep =
               \<lparr>ns_url =
                  or_default (env w ''NEXT_PUBLIC_APP_URL'') ''http://localhost:3000''
                    @ ''/api/webhook/process'',
                ns_method = ''POST'',
                ns_body =
                  \<lparr>ns_jobId = jobId,
                   ns_transcript = nullish_default (treq_transcript req) [],
                   ns_title = or_default (treq_title req) ''Untitled Podcast'',
                   ns_language = selected,
                   ns_metadata =
                     (case treq_metadata req of
                        None \<Rightarrow> JObj []
                      | Some m \<Rightarrow> if truthy_json m then m else JObj [])\<rparr>\<rparr>\<rparr>))))))
       (\<lambda>error. JsonResponse 500 (ErrorBody ''Failed to process webhook''))"

text \<open>
  The pattern \<open>job_<digits>_<alnum>\<close>: the prefix \<open>job_\<close>, a non-empty run of decimal
  digits, an underscore, and a non-empty run of letters and digits up to the end.
\<close>

definition matches_job_pattern :: "string \<Rightarrow> bool" where
  "matches_job_pattern s =
     (starts_with s ''job_'' \<and>
      (let r = drop 4 s; ds = takeWhile is_digit r; r' = dropWhile is_digit r
       in ds \<noteq> [] \<and> starts_with r' ''_'' \<and> drop 1 r' \<noteq> [] \<and> list_all is_alnum (drop 1 r')))"

text \<open>
  What \<open>toString(36)\<close> gives for a number in \<open>[0, 1)\<close>: \<open>0\<close>, or \<open>0.\<close> followed by
  digits of radix 36 in lower case.
\<close>

definition is_base36_fraction :: "string \<Rightarrow> bool" where
  "is_base36_fraction r =
     (r = ''0'' \<or>
      (starts_with r ''0.'' \<and>
       list_all (\<lambda>c. c \<in> set ''0123456789abcdefghijklmnopqrstuvwxyz'') (drop 2 r)))"

section \<open>The download stage\<close>

text \<open>A string between double quotes.\<close>

definition quoted :: "string \<Rightarrow> string" where
  "quoted s = [CHR 0x22] @ s @ [CHR 0x22]"

text \<open>\<open>GET\<close> of the download route, with \<open>params.jobId\<close>.\<close>

definition GET_download :: "world \<Rightarrow> string \<Rightarrow> response \<times> event list" where
  "GET_download w jobId =
     handle
       (if jobId = [] then ret (JsonResponse 400 (ErrorBody ''Job ID is required''))
        else
        bnd (call FsReaddir (readdir (the_fs w))) (\<lambda>files.
        (case find (\<lambda>file. includes_js file jobId \<and> ends_with file ''.mp3'') files of
           None \<Rightarrow> ret (JsonResponse 404 (ErrorBody ''File not found for this job ID''))
         | Some matchingFile \<Rightarrow>
             bnd (call (FsReadFile matchingFile) (readFile (the_fs w) matchingFile)) (\<lambda>fileBuffer.
             ret (FileResponse fileBuffer
               [(''Content-Type'', ''audio/mpeg''),
                (''Content-Disposition'', ''attachment; filename='' @ quoted matchingFile),
                (''Content-Length'', show_nat (length fileBuffer))])))))
       (\<lambda>error. JsonResponse 500 (ErrorBody ''Failed to serve file''))"

section \<open>Concrete worlds and requests\<close>

text \<open>
  A bucket policy that allows everyone to read, one with no statement, and their JSON
  texts.
\<close>

definition public_policy :: json where
  "public_policy =
     JObj [(''Statement'',
            JArr [JObj [(''Effect'', JStr ''Allow''),
                        (''Principal'', JObj [(''AWS'', JArr [JStr ''*''])])]])]"

definition private_policy :: json where
  "private_policy = JObj [(''Statement'', JArr [])]"

definition public_policy_text :: string where
  "public_policy_text =
     ''{'' @ quoted ''Statement'' @ '':[{'' @ quoted ''Effect'' @ '':'' @ quoted ''Allow'' @ '',''
       @ quoted ''Principal'' @ '':{'' @ quoted ''AWS'' @ '':['' @ quoted ''*'' @ '']}}]}''"

definition private_policy_text :: string where
  "private_policy_text = ''{'' @ quoted ''Statement'' @ '':[]}''"

text \<open>A store where every operation succeeds and the bucket exists and is public.\<close>

definition public_minio :: minio where
  "public_minio =
     \<lparr>import_minio = Inr (),
      new_Client = (\<lambda>_. Inr ()),
      bucketExists = (\<lambda>_. Inr True),
      makeBucket = (\<lambda>_ _. Inr ()),
      setBucketPolicy = (\<lambda>_. Inr ()),
      putObject = (\<lambda>_ _ _ _. Inr ()),
      getBucketPolicy = (\<lambda>_. Inr public_policy_text),
      presignedGetObject = (\<lambda>bucket file expiry.
        Inr (''https://minio2-api.aihub.ovh/'' @ bucket @ ''/'' @ file @ ''?X-Amz-Expires=''
               @ show_nat expiry))\<rparr>"

text \<open>An archive directory that exists and holds three entries.\<close>

definition example_fs :: fs where
  "example_fs =
     \<lparr>access = Inr (),
      mkdir = Inr (),
      writeFile = (\<lambda>_ _. Inr ()),
      readdir = Inr [''notes.txt'', ''podcast_job_1_a.mp3'', ''Other_job_1_a.mp3''],
      readFile = (\<lambda>file. if file = ''podcast_job_1_a.mp3'' then Inr [65, 66, 67]
                          else Inl (Error ''ENOENT''))\<rparr>"

definition example_world :: world where
  "example_world =
     \<lparr>env = map_of [(''MINIO_ACCESS_KEY'', ''access''), (''MINIO_SECRET_KEY'', ''secret''),
                     (''OPENAI_API_KEY'', ''key'')],
      Date_now = 1700000000000,
      random_toString36 = ''0.4fzyo82mvyr'',
      createDialogue = (\<lambda>_. Inr (Ok ''QUJD'')),
      streamObject = (\<lambda>_ _ _ _ _ _.
        Inr [Some [(Some ''Speaker1'', None)], Some [(Some ''Speaker1'', Some ''Hi'')]]),
      URL_parse = (\<lambda>s. if s = ''https://host:9443''
                        then Inr \<lparr>hostname = ''host'', url_port = ''9443'', protocol = ''https:''\<rparr>
                        else Inl type_error),
      JSON_parse = (\<lambda>s. if s = public_policy_text then Inr public_policy
                         else if s = private_policy_text then Inr private_policy
                         else Inl (Error ''SyntaxError'')),
      Buffer_from_base64 = (\<lambda>s. if s = ''QUJD'' then [65, 66, 67] else []),
      Number_toString = (\<lambda>_. ''Infinity''),
      the_fs = example_fs,
      the_minio = public_minio\<rparr>"

text \<open>
  The approve request of the spec's scenario, with no title, and the same request asking
  for the upload.
\<close>

definition example_approve :: approve_request where
  "example_approve =
     \<lparr>req_jobId = Some ''job_1_a'',
      req_conversation = Some [\<lparr>speaker = ''Speaker1'', utterance = ''Hi''\<rparr>],
      req_title = None,
      req_voice1 = None,
      req_voice2 = None,
      req_uploadToMinIO = Some False\<rparr>"

definition example_upload :: approve_request where
  "example_upload = example_approve\<lparr>req_uploadToMinIO := Some True\<rparr>"

text \<open>The receive request of the spec's scenario.\<close>

definition example_transcript :: transcript_request where
  "example_transcript =
     \<lparr>treq_transcript = Some ''Hello world'',
      treq_title = None,
      treq_language = Some ''pl'',
      treq_metadata = None\<rparr>"

definition example_process :: process_request where
  "example_process =
     \<lparr>preq_jobId = Some ''job_1_a'',
      preq_transcript = Some ''Hello world'',
      preq_title = None,
      preq_language = Some ''pl'',
      preq_metadata = None\<rparr>"

text \<open>A conversation whose last speaker tag is malformed.\<close>

definition example_conversation :: "turn list" where
  "example_conversation =
     [\<lparr>speaker = ''Speaker1'', utterance = ''Hi''\<rparr>,
      \<lparr>speaker = ''Speaker2'', utterance = ''Hello''\<rparr>,
      \<lparr>speaker = ''speaker1'', utterance = ''Bye''\<rparr>]"

text \<open>The world of the spec's storage-target scenario: a full URL as endpoint, next to a
  separately configured port and TLS flag.\<close>

definition url_world :: world where
  "url_world =
     example_world\<lparr>env := (env example_world)
       (''MINIO_ENDPOINT'' \<mapsto> ''https://host:9443'', ''MINIO_PORT'' \<mapsto> ''9000'',
        ''MINIO_USE_SSL'' \<mapsto> ''false'')\<rparr>"

text \<open>
  Variants of the example world: a private bucket, a bucket whose policy cannot be read,
  a bucket whose policy cannot be set, a store that refuses the object, and a private
  bucket whose store fails to sign.
\<close>

definition private_world :: world where
  "private_world =
     example_world\<lparr>the_minio := public_minio\<lparr>getBucketPolicy := (\<lambda>_. Inr private_policy_text)\<rparr>\<rparr>"

definition unreadable_policy_world :: world where
  "unreadable_policy_world =
     example_world\<lparr>the_minio := public_minio\<lparr>getBucketPolicy := (\<lambda>_. Inl (Error ''AccessDenied''))\<rparr>\<rparr>"

definition policy_denied_world :: world where
  "policy_denied_world =
     example_world\<lparr>the_minio := public_minio\<lparr>setBucketPolicy := (\<lambda>_. Inl (Error ''AccessDenied''))\<rparr>\<rparr>"

definition put_failure_world :: world where
  "put_failure_world =
     example_world\<lparr>the_minio := public_minio\<lparr>putObject := (\<lambda>_ _ _ _. Inl (Error ''connect ECONNREFUSED''))\<rparr>\<rparr>"

definition sign_failure_world :: world where
  "sign_failure_world =
     example_world\<lparr>the_minio := public_minio
       \<lparr>getBucketPolicy := (\<lambda>_. Inr private_policy_text),
        presignedGetObject := (\<lambda>_ _ _. Inl (Error ''SignatureDoesNotMatch''))\<rparr>\<rparr>"

text \<open>Worlds whose endpoint contains \<open>://\<close> and is no URL.\<close>

definition unparsable_url_world :: world where
  "unparsable_url_world =
     example_world\<lparr>env := (env example_world)
       (''MINIO_ENDPOINT'' \<mapsto> ''https://host:99999'', ''MINIO_PORT'' \<mapsto> ''9000'')\<rparr>"

definition bad_endpoint_world :: world where
  "bad_endpoint_world =
     example_world\<lparr>env := (env example_world)(''MINIO_ENDPOINT'' \<mapsto> ''://bad'')\<rparr>"

text \<open>A world with no archive directory, and one whose \<open>Math.random()\<close> returns \<open>0.5\<close>.\<close>

definition no_archive_world :: world where
  "no_archive_world = example_world\<lparr>the_fs := example_fs\<lparr>readdir := Inl (Error ''ENOENT'')\<rparr>\<rparr>"

definition half_world :: world where
  "half_world = example_world\<lparr>random_toString36 := ''0.i''\<rparr>"

section \<open>Auxiliary facts\<close>

lemmas io_defs = bnd_def ret_def lift_def call_def try_catch_def handle_def

lemma starts_with_iff: "starts_with s t \<longleftrightarrow> (\<exists>q. s = t @ q)"
  unfolding starts_with_def
  by (metis append_eq_conv_conj append_take_drop_id)

lemma includes_js_iff: "includes_js s t \<longleftrightarrow> (\<exists>p q. s = p @ t @ q)"
proof (induction s)
  case Nil
  then show ?case by simp
next
  case (Cons c cs)
  show ?case
  proof
    assume "includes_js (c # cs) t"
    then consider "starts_with (c # cs) t" | "includes_js cs t" by auto
    then show "\<exists>p q. c # cs = p @ t @ q"
    proof cases
      case 1
      then obtain q where "c # cs = t @ q" by (auto simp: starts_with_iff)
      then have "c # cs = [] @ t @ q" by simp
      then show ?thesis by blast
    next
      case 2
      then obtain p q where "cs = p @ t @ q" using Cons.IH by blast
      then have "c # cs = (c # p) @ t @ q" by simp
      then show ?thesis by blast
    qed
  next
    assume "\<exists>p q. c # cs = p @ t @ q"
    then obtain p q where pq: "c # cs = p @ t @ q" by blast
    show "includes_js (c # cs) t"
    proof (cases p)
      case Nil
      then have "starts_with (c # cs) t" using pq by (simp add: starts_with_iff)
      then show ?thesis by simp
    next
      case (Cons a p')
      then have "cs = p' @ t @ q" using pq by simp
      then show ?thesis using Cons.IH by auto
    qed
  qed
qed

lemma ends_with_iff: "ends_with s t \<longleftrightarrow> (\<exists>p. s = p @ t)"
  unfolding ends_with_def
  by (metis append_eq_conv_conj append_take_drop_id diff_add_inverse2 length_append length_drop
      le_add2)

lemma digit_char_is_digit: "d < 10 \<Longrightarrow> is_digit (digit_char d)"
proof -
  assume "d < 10"
  then have "d \<in> {0, 1, 2, 3, 4, 5, 6, 7, 8, 9}" by auto
  then show ?thesis by (auto simp: is_digit_def digit_char_def)
qed

lemma show_nat_digits: "list_all is_digit (show_nat n)"
proof (induction n rule: show_nat.induct)
  case (1 n)
  show ?case
  proof (cases "n < 10")
    case True
    then show ?thesis by (simp add: show_nat.simps [of n] digit_char_is_digit)
  next
    case False
    then show ?thesis using 1 by (simp add: show_nat.simps [of n] digit_char_is_digit)
  qed
qed

lemma show_nat_nonempty: "show_nat n \<noteq> []"
  by (simp add: show_nat.simps [of n])

lemma safeTitle_chars: "c \<in> set (safeTitle t) \<Longrightarrow> is_alnum c \<or> c = CHR ''_''"
  unfolding safeTitle_def by (auto dest!: in_set_takeD)

lemma safeTitle_length: "length (safeTitle t) \<le> 50"
  unfolding safeTitle_def by simp

lemma safeTitle_idem: "safeTitle (safeTitle t) = safeTitle t"
proof -
  have "(\<lambda>x. if is_alnum (if is_alnum x then x else CHR ''_'') then if is_alnum x then x else CHR ''_''
             else CHR ''_'') = (\<lambda>c. if is_alnum c then c else CHR ''_'')"
    by (rule ext) simp
  then show ?thesis
    unfolding safeTitle_def by (simp add: take_map [symmetric] o_def)
qed

lemma selectedLanguage_cases:
  "selectedLanguage None = ''en''"
  "l \<in> set validLanguages \<Longrightarrow> selectedLanguage (Some l) = l"
  "l \<notin> set validLanguages \<Longrightarrow> selectedLanguage (Some l) = ''en''"
  by (simp_all add: selectedLanguage_def validLanguages_def)

lemma validLanguages_11: "length validLanguages = 11 \<and> distinct validLanguages"
  by (simp add: validLanguages_def)



lemma ensureArchiveDir_eq:
  "ensureArchiveDir w =
     (case access (the_fs w) of
        Inr u \<Rightarrow> (Inr u, [FsAccess])
      | Inl e \<Rightarrow> (mkdir (the_fs w), [FsAccess, FsMkdir]))"
  by (simp add: ensureArchiveDir_def io_defs split: sum.splits)

lemma generateUrl_eq:
  "generateUrl w target b f =
     (case getBucketPolicy (the_minio w) b of
        Inl e \<Rightarrow> (Inr (publicUrl w target b f), [GetBucketPolicy b])
      | Inr p \<Rightarrow>
          (case JSON_parse w p of
             Inl e \<Rightarrow> (Inr (publicUrl w target b f), [GetBucketPolicy b])
           | Inr obj \<Rightarrow>
               (case isPublic obj of
                  Inl e \<Rightarrow> (Inr (publicUrl w target b f), [GetBucketPolicy b])
                | Inr True \<Rightarrow> (Inr (publicUrl w target b f), [GetBucketPolicy b])
                | Inr False \<Rightarrow>
                    (case presignedGetObject (the_minio w) b f 604800 of
                       Inl e \<Rightarrow> (Inr (publicUrl w target b f),
                                  [GetBucketPolicy b, PresignedGetObject b f 604800])
                     | Inr u \<Rightarrow> (Inr u, [GetBucketPolicy b, PresignedGetObject b f 604800])))))"
  by (simp add: generateUrl_def io_defs split: sum.splits bool.splits)

lemma uploadStep_off:
  "req_uploadToMinIO req \<noteq> Some True \<Longrightarrow> uploadStep w req a j = (Inr None, [])"
  by (simp add: uploadStep_def ret_def)

lemma POST_approve_no_minio:
  assumes "req_uploadToMinIO req \<noteq> Some True"
  shows "\<forall>e \<in> set (snd (POST_approve w (Inr req))). \<not> is_minio_event e"
  using assms
  by (auto simp: POST_approve_def uploadStep_off ensureArchiveDir_eq io_defs Let_def
      split: sum.splits option.splits result.splits if_splits prod.splits)


lemma generateUrl_total: "\<exists>u t. generateUrl w target b f = (Inr u, t)"
  by (simp add: generateUrl_eq split: sum.splits bool.splits)

lemma upload_eq:
  "uploadToMinIOStorage w a title j =
    (let m = the_minio w; b = bucketName w; f = artifactFilename title j;
         buf = Buffer_from_base64 w (base64Data a);
         failed = (\<lambda>e. Inr \<lparr>success = False, upload_url = None,
                    upload_error = Some (or_default (Some (message e)) ''Failed to upload to MinIO'')\<rparr>) in
     case import_minio m of Inl e \<Rightarrow> (failed e, [ImportMinio]) | Inr _ \<Rightarrow>
     if \<not> truthy (env w ''MINIO_ACCESS_KEY'') \<or> \<not> truthy (env w ''MINIO_SECRET_KEY'') then
       (Inr \<lparr>success = False, upload_url = None,
               upload_error = Some ''MinIO not configured. Set MINIO_ACCESS_KEY and MINIO_SECRET_KEY environment variables.''\<rparr>, [ImportMinio])
     else
     case new_Client m (clientOptions w) of Inl e \<Rightarrow> (failed e, [ImportMinio, NewClient (clientOptions w)]) | Inr _ \<Rightarrow>
     case bucketExists m b of Inl e \<Rightarrow> (failed e, [ImportMinio, NewClient (clientOptions w), BucketExists b]) | Inr ex \<Rightarrow>
     case (if ex then Inr () else makeBucket m b ''us-east-1'') of
       Inl e \<Rightarrow> (failed e, [ImportMinio, NewClient (clientOptions w), BucketExists b, MakeBucket b ''us-east-1''])
     | Inr _ \<Rightarrow>
     let pre = [ImportMinio, NewClient (clientOptions w), BucketExists b]
                @ (if ex then [] else [MakeBucket b ''us-east-1'']) @ [SetBucketPolicy b, PutObject b f buf (length buf)] in
     case putObject m b f buf (length buf) of Inl e \<Rightarrow> (failed e, pre) | Inr _ \<Rightarrow>
     (Inr \<lparr>success = True, upload_url = Some (projr (fst (generateUrl w (resolveTarget w) b f))), upload_error = None\<rparr>,
      pre @ snd (generateUrl w (resolveTarget w) b f)))"
  using generateUrl_total [of w "resolveTarget w" "bucketName w" "artifactFilename title j"]
  by (auto simp: uploadToMinIOStorage_def io_defs Let_def split: sum.splits bool.splits if_splits)


lemma uploadStep_eq:
  "uploadStep w req a j =
     (if req_uploadToMinIO req = Some True then
        (case uploadToMinIOStorage w a (nullish_default (req_title req) ''podcast'') j of
           (Inr r, t) \<Rightarrow> (Inr (if success r then upload_url r else None), t)
         | (Inl e, t) \<Rightarrow> (Inr None, t))
      else (Inr None, []))"
  by (simp add: uploadStep_def io_defs split: sum.splits prod.splits)

lemma uploadStep_total: "\<exists>mu tu. uploadStep w req a j = (Inr mu, tu)"
  by (simp add: uploadStep_eq split: sum.splits prod.splits)

lemma POST_approve_ok:
  assumes "req_conversation req = Some conv" and "conv \<noteq> []"
    and "req_jobId req = Some jobId" and "jobId \<noteq> []"
    and "createDialogue w (dialogueInputs conv (or_default (req_voice1 req) ''FF7KdobWPaiR0vkcALHF'')
           (or_default (req_voice2 req) ''BpjGufoPiobT79j2vtj4'')) = Inr (Ok audio)"
    and "fst (ensureArchiveDir w) = Inr ()"
    and "writeFile (the_fs w) (artifactFilename (or_default (req_title req) ''podcast'') jobId)
           (Buffer_from_base64 w (base64Data audio)) = Inr ()"
    and "uploadStep w req audio jobId = (Inr mu, tu)"
  shows "POST_approve w (Inr req) =
     (JsonResponse 200 (ApproveBody
        \<lparr>ok_success = True, ok_jobId = jobId,
         downloadUrl = or_default mu (localDownloadUrl w jobId),
         minioUrl = mu,
         filename = artifactFilename (or_default (req_title req) ''podcast'') jobId,
         ok_message = ''Audio generated successfully''\<rparr>),
      CreateDialogue (dialogueInputs conv (or_default (req_voice1 req) ''FF7KdobWPaiR0vkcALHF'')
           (or_default (req_voice2 req) ''BpjGufoPiobT79j2vtj4''))
        # snd (ensureArchiveDir w)
        @ FsWriteFile (artifactFilename (or_default (req_title req) ''podcast'') jobId)
            (Buffer_from_base64 w (base64Data audio))
        # tu)"
  using assms
  by (cases "ensureArchiveDir w") (simp add: POST_approve_def io_defs Let_def)

lemma POST_approve_200:
  assumes "fst (POST_approve w (Inr req)) = JsonResponse 200 b"
  shows "\<exists>conv jobId audio mu tu.
      req_conversation req = Some conv \<and> conv \<noteq> [] \<and> req_jobId req = Some jobId \<and> jobId \<noteq> [] \<and>
      createDialogue w (dialogueInputs conv (or_default (req_voice1 req) ''FF7KdobWPaiR0vkcALHF'')
           (or_default (req_voice2 req) ''BpjGufoPiobT79j2vtj4'')) = Inr (Ok audio) \<and>
      fst (ensureArchiveDir w) = Inr () \<and>
      writeFile (the_fs w) (artifactFilename (or_default (req_title req) ''podcast'') jobId)
           (Buffer_from_base64 w (base64Data audio)) = Inr () \<and>
      uploadStep w req audio jobId = (Inr mu, tu)"
proof -
  obtain conv where conv: "req_conversation req = Some conv" "conv \<noteq> []"
    using assms by (cases "req_conversation req") (auto simp: POST_approve_def io_defs split: if_splits)
  obtain jobId where job: "req_jobId req = Some jobId" "jobId \<noteq> []"
    using assms conv by (cases "req_jobId req") (auto simp: POST_approve_def io_defs split: if_splits)
  let ?inputs = "dialogueInputs conv (or_default (req_voice1 req) ''FF7KdobWPaiR0vkcALHF'')
           (or_default (req_voice2 req) ''BpjGufoPiobT79j2vtj4'')"
  obtain audio where audio: "createDialogue w ?inputs = Inr (Ok audio)"
    using assms conv job
    by (cases "createDialogue w ?inputs")
       (auto simp: POST_approve_def io_defs Let_def split: result.splits)
  have dir: "fst (ensureArchiveDir w) = Inr ()"
    using assms conv job audio
    by (cases "ensureArchiveDir w"; cases "fst (ensureArchiveDir w)")
       (auto simp: POST_approve_def io_defs Let_def)
  obtain mu tu where up: "uploadStep w req audio jobId = (Inr mu, tu)"
    using uploadStep_total by blast
  have wr: "writeFile (the_fs w) (artifactFilename (or_default (req_title req) ''podcast'') jobId)
           (Buffer_from_base64 w (base64Data audio)) = Inr ()"
    using assms conv job audio dir
    by (cases "ensureArchiveDir w";
        cases "writeFile (the_fs w) (artifactFilename (or_default (req_title req) ''podcast'') jobId)
           (Buffer_from_base64 w (base64Data audio))")
       (auto simp: POST_approve_def io_defs Let_def)
  show ?thesis using conv job audio dir wr up by blast
qed

section \<open>The synthesis request\<close>

text \<open>
  Claim C9. The synthesis request has one input per turn of the conversation, in the same
  order and with the turn's text; the voice of an input is \<open>voice1Id\<close> when the speaker tag
  is exactly \<open>Speaker1\<close> and \<open>voice2Id\<close> for every other tag. Whatever the tags are, a
  request with a non-empty conversation and a job id reaches \<open>createDialogue\<close> with these
  inputs: no tag is rejected.
\<close>

theorem dialogueInputs_per_turn:
  "length (dialogueInputs conversation voice1Id voice2Id) = length conversation \<and>
   map input_text (dialogueInputs conversation voice1Id voice2Id) = map utterance conversation \<and>
   (\<forall>i < length conversation.
      voiceId (dialogueInputs conversation voice1Id voice2Id ! i) =
        (if speaker (conversation ! i) = ''Speaker1'' then voice1Id else voice2Id)) \<and>
   (req_conversation req = Some conversation \<and> conversation \<noteq> [] \<and>
    req_jobId req = Some jobId \<and> jobId \<noteq> [] \<longrightarrow>
      (\<exists>t. snd (POST_approve w (Inr req)) =
         CreateDialogue (dialogueInputs conversation
            (or_default (req_voice1 req) ''FF7KdobWPaiR0vkcALHF'')
            (or_default (req_voice2 req) ''BpjGufoPiobT79j2vtj4'')) # t))"
proof -
  have "\<exists>t. snd (POST_approve w (Inr req)) =
         CreateDialogue (dialogueInputs conversation
            (or_default (req_voice1 req) ''FF7KdobWPaiR0vkcALHF'')
            (or_default (req_voice2 req) ''BpjGufoPiobT79j2vtj4'')) # t"
    if "req_conversation req = Some conversation" "conversation \<noteq> []"
      "req_jobId req = Some jobId" "jobId \<noteq> []"
    using that
    by (simp add: POST_approve_def io_defs Let_def split: sum.splits prod.splits result.splits)
  then show ?thesis
    by (simp add: dialogueInputs_def o_def)
qed

lemma example_approve_eval:
  "POST_approve example_world (Inr example_approve) =
     (JsonResponse 200 (ApproveBody
        \<lparr>ok_success = True, ok_jobId = ''job_1_a'',
         downloadUrl = ''http://localhost:3000/api/webhook/download/job_1_a'',
         minioUrl = None, filename = ''podcast_job_1_a.mp3'',
         ok_message = ''Audio generated successfully''\<rparr>),
      [CreateDialogue [\<lparr>input_text = ''Hi'', voiceId = ''FF7KdobWPaiR0vkcALHF''\<rparr>],
       FsAccess, FsWriteFile ''podcast_job_1_a.mp3'' [65, 66, 67]])"
  by (simp add: POST_approve_def uploadStep_def ensureArchiveDir_def dialogueInputs_def
      artifactFilename_def safeTitle_def is_alnum_def base64Data_def or_default_def
      localDownloadUrl_def Let_def
      io_defs example_world_def example_fs_def example_approve_def)

text \<open>The three turns of the example, the last one with the tag \<open>speaker1\<close>.\<close>

theorem dialogueInputs_per_turn_witness:
  "map voiceId (dialogueInputs example_conversation ''A'' ''B'') = [''A'', ''B'', ''B''] \<and>
   map input_text (dialogueInputs example_conversation ''A'' ''B'') = [''Hi'', ''Hello'', ''Bye''] \<and>
   snd (POST_approve example_world (Inr example_approve)) =
     [CreateDialogue [\<lparr>input_text = ''Hi'', voiceId = ''FF7KdobWPaiR0vkcALHF''\<rparr>],
      FsAccess, FsWriteFile ''podcast_job_1_a.mp3'' [65, 66, 67]]"
proof -
  note t = dialogueInputs_per_turn [of example_conversation "''A''" "''B''" example_approve "''job_1_a''" example_world]
  have len: "length (dialogueInputs example_conversation ''A'' ''B'') = 3"
    using t by (simp add: example_conversation_def)
  have v: "\<forall>i < 3. voiceId (dialogueInputs example_conversation ''A'' ''B'' ! i) =
        (if speaker (example_conversation ! i) = ''Speaker1'' then ''A'' else ''B'')"
    using t by (simp add: example_conversation_def)
  have "map voiceId (dialogueInputs example_conversation ''A'' ''B'') = [''A'', ''B'', ''B'']"
    using len v by (simp add: list_eq_iff_nth_eq less_Suc_eq numeral_3_eq_3 example_conversation_def)
  moreover have "map input_text (dialogueInputs example_conversation ''A'' ''B'') = [''Hi'', ''Hello'', ''Bye'']"
    using t by (simp add: example_conversation_def)
  moreover have "snd (POST_approve example_world (Inr example_approve)) =
     [CreateDialogue [\<lparr>input_text = ''Hi'', voiceId = ''FF7KdobWPaiR0vkcALHF''\<rparr>],
      FsAccess, FsWriteFile ''podcast_job_1_a.mp3'' [65, 66, 67]]"
    by (simp add: example_approve_eval)
  ultimately show ?thesis by blast
qed

section \<open>The file name\<close>

text \<open>
  Claim C5. For every title the slug has only ASCII letters, digits and underscores, has
  at most 50 characters, and is a fixed point of the sanitization; the file name is the
  slug followed by \<open>_\<close>, the job id and \<open>.mp3\<close>, also in the response of the approve stage.
\<close>

theorem safeTitle_slug:
  "(\<forall>c \<in> set (safeTitle title).
      c \<in> set ''abcdefghijklmnopqrstuvwxyzABCDEFGHIJKLMNOPQRSTUVWXYZ0123456789_'') \<and>
   length (safeTitle title) \<le> 50 \<and>
   safeTitle (safeTitle title) = safeTitle title \<and>
   artifactFilename title jobId = safeTitle title @ ''_'' @ jobId @ ''.mp3'' \<and>
   (\<forall>s. fst (POST_approve w (Inr req)) = JsonResponse 200 (ApproveBody s) \<longrightarrow>
      filename s = safeTitle (or_default (req_title req) ''podcast'') @ ''_'' @ ok_jobId s @ ''.mp3'' \<and>
      req_jobId req = Some (ok_jobId s))"
proof -
  have "\<forall>c \<in> set (safeTitle title).
      c \<in> set ''abcdefghijklmnopqrstuvwxyzABCDEFGHIJKLMNOPQRSTUVWXYZ0123456789_''"
    using safeTitle_chars [of _ title] unfolding is_alnum_def by auto
  moreover have "filename s = safeTitle (or_default (req_title req) ''podcast'') @ ''_'' @ ok_jobId s @ ''.mp3'' \<and>
      req_jobId req = Some (ok_jobId s)"
    if h: "fst (POST_approve w (Inr req)) = JsonResponse 200 (ApproveBody s)" for s
  proof -
    from POST_approve_200 [OF h] obtain conv jobId audio mu tu where
      a: "req_conversation req = Some conv" "conv \<noteq> []" "req_jobId req = Some jobId" "jobId \<noteq> []"
      "createDialogue w (dialogueInputs conv (or_default (req_voice1 req) ''FF7KdobWPaiR0vkcALHF'')
           (or_default (req_voice2 req) ''BpjGufoPiobT79j2vtj4'')) = Inr (Ok audio)"
      "fst (ensureArchiveDir w) = Inr ()"
      "writeFile (the_fs w) (artifactFilename (or_default (req_title req) ''podcast'') jobId)
           (Buffer_from_base64 w (base64Data audio)) = Inr ()"
      "uploadStep w req audio jobId = (Inr mu, tu)"
      by blast
    from POST_approve_ok [OF a] h a(3) show ?thesis
      by (auto simp: artifactFilename_def)
  qed
  ultimately show ?thesis
    by (simp add: safeTitle_length safeTitle_idem artifactFilename_def)
qed

text \<open>A title with spaces and punctuation, and the default title of the example request.\<close>

theorem safeTitle_slug_witness:
  "safeTitle ''My Podcast: Episode #1!'' = ''My_Podcast__Episode__1_'' \<and>
   safeTitle ''My_Podcast__Episode__1_'' = ''My_Podcast__Episode__1_'' \<and>
   artifactFilename ''My Podcast: Episode #1!'' ''job_1_a'' = ''My_Podcast__Episode__1__job_1_a.mp3'' \<and>
   safeTitle (or_default (req_title example_approve) ''podcast'') @ ''_'' @ ''job_1_a'' @ ''.mp3'' =
     ''podcast_job_1_a.mp3'' \<and>
   req_jobId example_approve = Some ''job_1_a''"
proof -
  have e: "safeTitle ''My Podcast: Episode #1!'' = ''My_Podcast__Episode__1_''"
    by (simp add: safeTitle_def is_alnum_def)
  note t = safeTitle_slug [of "''My Podcast: Episode #1!''" "''job_1_a''" example_world example_approve]
  have "safeTitle (safeTitle ''My Podcast: Episode #1!'') = safeTitle ''My Podcast: Episode #1!''"
    using t by blast
  then have i: "safeTitle ''My_Podcast__Episode__1_'' = ''My_Podcast__Episode__1_''"
    by (simp only: e)
  have "artifactFilename ''My Podcast: Episode #1!'' ''job_1_a'' =
      safeTitle ''My Podcast: Episode #1!'' @ ''_'' @ ''job_1_a'' @ ''.mp3''"
    using t by blast
  then have f: "artifactFilename ''My Podcast: Episode #1!'' ''job_1_a'' = ''My_Podcast__Episode__1__job_1_a.mp3''"
    by (simp add: e)
  have "fst (POST_approve example_world (Inr example_approve)) = JsonResponse 200 (ApproveBody
        \<lparr>ok_success = True, ok_jobId = ''job_1_a'',
         downloadUrl = ''http://localhost:3000/api/webhook/download/job_1_a'',
         minioUrl = None, filename = ''podcast_job_1_a.mp3'',
         ok_message = ''Audio generated successfully''\<rparr>)"
    by (simp add: example_approve_eval)
  with t have g: "safeTitle (or_default (req_title example_approve) ''podcast'') @ ''_'' @ ''job_1_a'' @ ''.mp3'' =
     ''podcast_job_1_a.mp3'' \<and> req_jobId example_approve = Some ''job_1_a''"
    by fastforce
  show ?thesis using e i f g by simp
qed

section \<open>The language of the process stage\<close>

text \<open>
  Claim C6. There are eleven language codes. The process stage resolves a supplied tag
  that is one of them to itself, and any other tag and an absent tag to \<open>en\<close>. A call
  with a transcript, a job id and a configured provider key asks the provider for a
  conversation in the resolved language, and when the provider answers, the stage answers
  200 with the resolved language in the response; no other response is a 200.
\<close>

theorem process_language_resolution:
  "set validLanguages =
     {''en'', ''pl'', ''es'', ''fr'', ''de'', ''it'', ''pt'', ''ru'', ''ja'', ''ko'', ''zh''} \<and>
   length validLanguages = 11 \<and> distinct validLanguages \<and>
   (\<forall>l \<in> set validLanguages. selectedLanguage (Some l) = l) \<and>
   (\<forall>l. l \<notin> set validLanguages \<longrightarrow> selectedLanguage (Some l) = ''en'') \<and>
   selectedLanguage None = ''en'' \<and>
   (\<forall>s. fst (POST_process w (Inr req)) = JsonResponse 200 (ProcessBody s) \<longrightarrow>
      p_language s = selectedLanguage (preq_language req)) \<and>
   (\<forall>transcript jobId.
      preq_transcript req = Some transcript \<and> transcript \<noteq> [] \<and>
      preq_jobId req = Some jobId \<and> jobId \<noteq> [] \<and>
      (truthy (env w ''OPENROUTER_API_KEY'') \<or> truthy (env w ''OPENAI_API_KEY'')) \<longrightarrow>
      snd (POST_process w (Inr req)) =
        [StreamObject (modelName w) (truthy (env w ''OPENROUTER_API_KEY''))
           (languageName (selectedLanguage (preq_language req))) (selectedLanguage (preq_language req))
           transcript (or_default (preq_title req) ''Untitled Podcast'')] \<and>
      (\<forall>chunks.
         streamObject w (modelName w) (truthy (env w ''OPENROUTER_API_KEY''))
           (languageName (selectedLanguage (preq_language req))) (selectedLanguage (preq_language req))
           transcript (or_default (preq_title req) ''Untitled Podcast'') = Inr chunks \<longrightarrow>
         fst (POST_process w (Inr req)) =
           JsonResponse 200 (ProcessBody
             \<lparr>p_success = True,
              p_jobId = jobId,
              p_conversation = collect chunks,
              p_title = or_default (preq_title req) ''Untitled Podcast'',
              p_language = selectedLanguage (preq_language req),
              approvalUrl =
                or_default (env w ''NEXT_PUBLIC_APP_URL'') ''http://localhost:3000''
                  @ ''/api/webhook/approve'',
              p_message = ''Conversation generated. Please review and approve.''\<rparr>)))"
proof -
  have echo: "p_language s = selectedLanguage (preq_language req)"
    if "fst (POST_process w (Inr req)) = JsonResponse 200 (ProcessBody s)" for s
    using that
    by (auto simp: POST_process_def io_defs Let_def split: if_splits sum.splits)
  have run: "snd (POST_process w (Inr req)) =
        [StreamObject (modelName w) (truthy (env w ''OPENROUTER_API_KEY''))
           (languageName (selectedLanguage (preq_language req))) (selectedLanguage (preq_language req))
           transcript (or_default (preq_title req) ''Untitled Podcast'')] \<and>
      (\<forall>chunks.
         streamObject w (modelName w) (truthy (env w ''OPENROUTER_API_KEY''))
           (languageName (selectedLanguage (preq_language req))) (selectedLanguage (preq_language req))
           transcript (or_default (preq_title req) ''Untitled Podcast'') = Inr chunks \<longrightarrow>
         fst (POST_process w (Inr req)) =
           JsonResponse 200 (ProcessBody
             \<lparr>p_success = True,
              p_jobId = jobId,
              p_conversation = collect chunks,
              p_title = or_default (preq_title req) ''Untitled Podcast'',
              p_language = selectedLanguage (preq_language req),
              approvalUrl =
                or_default (env w ''NEXT_PUBLIC_APP_URL'') ''http://localhost:3000''
                  @ ''/api/webhook/approve'',
              p_message = ''Conversation generated. Please review and approve.''\<rparr>))"
    if "preq_transcript req = Some transcript" "transcript \<noteq> []"
      "preq_jobId req = Some jobId" "jobId \<noteq> []"
      "truthy (env w ''OPENROUTER_API_KEY'') \<or> truthy (env w ''OPENAI_API_KEY'')"
    for transcript jobId
    using that
    by (cases "streamObject w (modelName w) (truthy (env w ''OPENROUTER_API_KEY''))
           (languageName (selectedLanguage (preq_language req))) (selectedLanguage (preq_language req))
           transcript (or_default (preq_title req) ''Untitled Podcast'')")
       (auto simp: POST_process_def io_defs Let_def truthy_def nullish_default_def)
  have codes: "set validLanguages =
     {''en'', ''pl'', ''es'', ''fr'', ''de'', ''it'', ''pt'', ''ru'', ''ja'', ''ko'', ''zh''}"
    by (simp add: validLanguages_def)
  from echo run codes selectedLanguage_cases validLanguages_11 show ?thesis
    by (intro conjI) blast+
qed

lemma example_process_eval:
  "POST_process example_world (Inr example_process) =
     (JsonResponse 200 (ProcessBody
        \<lparr>p_success = True, p_jobId = ''job_1_a'',
         p_conversation = [\<lparr>speaker = ''Speaker1'', utterance = ''Hi''\<rparr>],
         p_title = ''Untitled Podcast'', p_language = ''pl'',
         approvalUrl = ''http://localhost:3000/api/webhook/approve'',
         p_message = ''Conversation generated. Please review and approve.''\<rparr>),
      [StreamObject ''gpt-4o-mini'' False ''Polish'' ''pl'' ''Hello world'' ''Untitled Podcast''])"
  by (simp add: POST_process_def selectedLanguage_def validLanguages_def languageNames_def
      modelName_def languageName_def collect_def truthy_def or_default_def nullish_default_def
      Let_def io_defs example_world_def example_process_def)

text \<open>
  The example request, with the tag \<open>pl\<close> and with the tag \<open>xx\<close>: the provider is asked for
  Polish and for English, and the responses say \<open>pl\<close> and \<open>en\<close>.
\<close>

theorem process_language_resolution_witness:
  "selectedLanguage (Some ''pl'') = ''pl'' \<and> selectedLanguage (Some ''xx'') = ''en'' \<and>
   POST_process example_world (Inr example_process) =
     (JsonResponse 200 (ProcessBody
        \<lparr>p_success = True, p_jobId = ''job_1_a'',
         p_conversation = [\<lparr>speaker = ''Speaker1'', utterance = ''Hi''\<rparr>],
         p_title = ''Untitled Podcast'', p_language = ''pl'',
         approvalUrl = ''http://localhost:3000/api/webhook/approve'',
         p_message = ''Conversation generated. Please review and approve.''\<rparr>),
      [StreamObject ''gpt-4o-mini'' False ''Polish'' ''pl'' ''Hello world'' ''Untitled Podcast'']) \<and>
   POST_process example_world (Inr (example_process\<lparr>preq_language := Some ''xx''\<rparr>)) =
     (JsonResponse 200 (ProcessBody
        \<lparr>p_success = True, p_jobId = ''job_1_a'',
         p_conversation = [\<lparr>speaker = ''Speaker1'', utterance = ''Hi''\<rparr>],
         p_title = ''Untitled Podcast'', p_language = ''en'',
         approvalUrl = ''http://localhost:3000/api/webhook/approve'',
         p_message = ''Conversation generated. Please review and approve.''\<rparr>),
      [StreamObject ''gpt-4o-mini'' False ''English'' ''en'' ''Hello world'' ''Untitled Podcast''])"
proof -
  have pl: "''pl'' \<in> set validLanguages" and xx: "''xx'' \<notin> set validLanguages"
    by (simp_all add: validLanguages_def)
  have env: "truthy (env example_world ''OPENROUTER_API_KEY'') = False"
    "truthy (env example_world ''OPENAI_API_KEY'')"
    "or_default (env example_world ''NEXT_PUBLIC_APP_URL'') ''http://localhost:3000''
       @ ''/api/webhook/approve'' = ''http://localhost:3000/api/webhook/approve''"
    "env example_world ''NEXT_PUBLIC_APP_URL'' = None"
    "modelName example_world = ''gpt-4o-mini''"
    "languageName ''pl'' = ''Polish''" "languageName ''en'' = ''English''"
    "streamObject example_world a b c d e f =
       Inr [Some [(Some ''Speaker1'', None)], Some [(Some ''Speaker1'', Some ''Hi'')]]"
    "collect [Some [(Some ''Speaker1'', None)], Some [(Some ''Speaker1'', Some ''Hi'')]] =
       [\<lparr>speaker = ''Speaker1'', utterance = ''Hi''\<rparr>]"
    for a b c d e f
    by (simp_all add: example_world_def truthy_def or_default_def modelName_def languageName_def
        languageNames_def collect_def)
  have req: "preq_transcript (example_process\<lparr>preq_language := l\<rparr>) = Some ''Hello world''"
    "preq_jobId (example_process\<lparr>preq_language := l\<rparr>) = Some ''job_1_a''"
    "preq_title (example_process\<lparr>preq_language := l\<rparr>) = None"
    "preq_language (example_process\<lparr>preq_language := l\<rparr>) = l"
    "example_process\<lparr>preq_language := Some ''pl''\<rparr> = example_process"
    for l
    by (simp_all add: example_process_def)
  note t = process_language_resolution [of example_world]
  from t [of example_process] pl have a: "selectedLanguage (Some ''pl'') = ''pl''"
    by blast
  from t [of example_process] xx have b: "selectedLanguage (Some ''xx'') = ''en''"
    by blast
  have run: "POST_process example_world (Inr (example_process\<lparr>preq_language := Some l\<rparr>)) =
     (JsonResponse 200 (ProcessBody
        \<lparr>p_success = True, p_jobId = ''job_1_a'',
         p_conversation = [\<lparr>speaker = ''Speaker1'', utterance = ''Hi''\<rparr>],
         p_title = ''Untitled Podcast'', p_language = selectedLanguage (Some l),
         approvalUrl = ''http://localhost:3000/api/webhook/approve'',
         p_message = ''Conversation generated. Please review and approve.''\<rparr>),
      [StreamObject ''gpt-4o-mini'' False (languageName (selectedLanguage (Some l)))
         (selectedLanguage (Some l)) ''Hello world'' ''Untitled Podcast''])" for l
    using t [of "example_process\<lparr>preq_language := Some l\<rparr>", THEN conjunct2, THEN conjunct2,
        THEN conjunct2, THEN conjunct2, THEN conjunct2, THEN conjunct2, THEN conjunct2,
        THEN spec, THEN spec, THEN mp, of "''Hello world''" "''job_1_a''"]
    by (simp add: req env or_default_def prod_eq_iff)
  from run [of "''pl''"] run [of "''xx''"] a b show ?thesis
    by (simp add: req env)
qed

section \<open>The storage target\<close>

lemma parseInt_9443: "parseInt ''9443'' = Num 9443"
  by (simp add: parseInt_def starts_with_def is_white_space_def is_radix_digit_def
      digit_value_def digits_value_def)

lemma parseInt_443: "parseInt ''443'' = Num 443"
  by (simp add: parseInt_def starts_with_def is_white_space_def is_radix_digit_def
      digit_value_def digits_value_def)

text \<open>
  Claim C4, as the code has it. When the configured endpoint contains \<open>://\<close> and parses
  as a URL, the host is the URL's hostname, TLS is on iff its protocol is \<open>https:\<close>, and
  the port is the URL's port, or 443 for \<open>https:\<close> and 80 otherwise when the URL has none;
  the separately configured port and TLS flag have no influence. When the endpoint
  contains \<open>://\<close> and does not parse as a URL, the endpoint string is used as it is,
  with the configured port and the configured TLS flag. When the endpoint contains no
  \<open>://\<close>, the configured endpoint and port are used, and TLS is on iff the flag is
  \<open>true\<close> or the port is 443.
\<close>

theorem target_resolution_precedence:
  assumes "endpoint = or_default (env w ''MINIO_ENDPOINT'') ''minio2-api.aihub.ovh''"
  shows "((\<exists>p q. endpoint = p @ ''://'' @ q) \<and> URL_parse w endpoint = Inr u \<longrightarrow>
            resolveTarget w =
              (hostname u,
               (if url_port u = [] then (if protocol u = ''https:'' then Num 443 else Num 80)
                else parseInt (url_port u)),
               protocol u = ''https:'') \<and>
            (\<forall>p s. resolveTarget (w\<lparr>env := (env w)(''MINIO_PORT'' := p, ''MINIO_USE_SSL'' := s)\<rparr>) =
               resolveTarget w)) \<and>
         ((\<exists>p q. endpoint = p @ ''://'' @ q) \<and> (\<exists>e. URL_parse w endpoint = Inl e) \<longrightarrow>
            resolveTarget w =
              (endpoint,
               parseInt (or_default (env w ''MINIO_PORT'') ''443''),
               env w ''MINIO_USE_SSL'' = Some ''true'')) \<and>
         ((\<nexists>p q. endpoint = p @ ''://'' @ q) \<longrightarrow>
            resolveTarget w =
              (endpoint,
               parseInt (or_default (env w ''MINIO_PORT'') ''443''),
               env w ''MINIO_USE_SSL'' = Some ''true'' \<or>
                 parseInt (or_default (env w ''MINIO_PORT'') ''443'') = Num 443))"
proof -
  let ?inc = "includes_js endpoint ''://''"
  have iff: "(\<exists>p q. endpoint = p @ ''://'' @ q) = ?inc"
    by (simp only: includes_js_iff)
  have A: "resolveTarget w =
              (hostname u,
               (if url_port u = [] then (if protocol u = ''https:'' then Num 443 else Num 80)
                else parseInt (url_port u)),
               protocol u = ''https:'') \<and>
            (\<forall>p s. resolveTarget (w\<lparr>env := (env w)(''MINIO_PORT'' := p, ''MINIO_USE_SSL'' := s)\<rparr>) =
               resolveTarget w)"
    if "?inc" "URL_parse w endpoint = Inr u"
    using that assms by (simp add: resolveTarget_def Let_def)
  have C: "resolveTarget w =
              (endpoint,
               parseInt (or_default (env w ''MINIO_PORT'') ''443''),
               env w ''MINIO_USE_SSL'' = Some ''true'')"
    if "?inc" "URL_parse w endpoint = Inl e" for e
    using that assms by (simp add: resolveTarget_def Let_def)
  have B: "resolveTarget w =
              (endpoint,
               parseInt (or_default (env w ''MINIO_PORT'') ''443''),
               env w ''MINIO_USE_SSL'' = Some ''true'' \<or>
                 parseInt (or_default (env w ''MINIO_PORT'') ''443'') = Num 443)"
    if "\<not> ?inc"
    using that assms by (simp add: resolveTarget_def Let_def)
  show ?thesis
    unfolding iff using A B C by blast
qed

lemma parseInt_9000: "parseInt ''9000'' = Num 9000"
  by (simp add: parseInt_def starts_with_def is_white_space_def is_radix_digit_def
      digit_value_def digits_value_def)

text \<open>
  Claim C4 as stated derives host, port and TLS from the URL whenever the endpoint has a
  scheme. The endpoint \<open>https://host:99999\<close> has one and is no URL (the port is out of
  range, \<open>new URL\<close> throws): the target keeps the whole string as host, the configured
  port 9000 and TLS off.
\<close>

theorem unparsable_endpoint_is_kept:
  "env unparsable_url_world ''MINIO_ENDPOINT'' = Some ''https://host:99999'' \<and>
   env unparsable_url_world ''MINIO_PORT'' = Some ''9000'' \<and>
   env unparsable_url_world ''MINIO_USE_SSL'' = None \<and>
   includes_js ''https://host:99999'' ''://'' \<and>
   URL_parse unparsable_url_world ''https://host:99999'' = Inl type_error \<and>
   resolveTarget unparsable_url_world = (''https://host:99999'', Num 9000, False)"
  by (simp add: resolveTarget_def unparsable_url_world_def example_world_def or_default_def
      starts_with_def parseInt_9000)

text \<open>
  The endpoint \<open>https://host:9443\<close> next to port 9000 and TLS off, the default endpoint,
  and the endpoint \<open>://bad\<close>.
\<close>

theorem target_resolution_precedence_witness:
  "resolveTarget url_world = (''host'', Num 9443, True) \<and>
   env url_world ''MINIO_PORT'' = Some ''9000'' \<and> env url_world ''MINIO_USE_SSL'' = Some ''false'' \<and>
   resolveTarget (url_world\<lparr>env := (env url_world)(''MINIO_PORT'' := None, ''MINIO_USE_SSL'' := None)\<rparr>) =
     (''host'', Num 9443, True) \<and>
   resolveTarget example_world = (''minio2-api.aihub.ovh'', Num 443, True) \<and>
   resolveTarget bad_endpoint_world = (''://bad'', Num 443, False)"
proof -
  have e: "''https://host:9443'' = or_default (env url_world ''MINIO_ENDPOINT'') ''minio2-api.aihub.ovh''"
    by (simp add: url_world_def example_world_def or_default_def)
  have c: "\<exists>p q. ''https://host:9443'' = p @ ''://'' @ q"
    unfolding includes_js_iff [symmetric] by (simp add: starts_with_def)
  have u: "URL_parse url_world ''https://host:9443'' =
      Inr \<lparr>hostname = ''host'', url_port = ''9443'', protocol = ''https:''\<rparr>"
    by (simp add: url_world_def example_world_def)
  from target_resolution_precedence [OF e, of "\<lparr>hostname = ''host'', url_port = ''9443'', protocol = ''https:''\<rparr>"] c u
  have r: "resolveTarget url_world = (''host'', Num 9443, True)"
    and o: "resolveTarget (url_world\<lparr>env := (env url_world)(''MINIO_PORT'' := None, ''MINIO_USE_SSL'' := None)\<rparr>) =
       resolveTarget url_world"
    by (simp_all add: parseInt_9443)
  have e': "''minio2-api.aihub.ovh'' = or_default (env example_world ''MINIO_ENDPOINT'') ''minio2-api.aihub.ovh''"
    by (simp add: example_world_def or_default_def)
  have n: "\<nexists>p q. ''minio2-api.aihub.ovh'' = p @ ''://'' @ q"
    unfolding includes_js_iff [symmetric] by (simp add: starts_with_def)
  have p: "or_default (env example_world ''MINIO_PORT'') ''443'' = ''443''"
    by (simp add: example_world_def or_default_def)
  from target_resolution_precedence [OF e', of "\<lparr>hostname = [], url_port = [], protocol = []\<rparr>"] n
  have d: "resolveTarget example_world = (''minio2-api.aihub.ovh'', Num 443, True)"
    by (simp add: p parseInt_443)
  have e'': "''://bad'' = or_default (env bad_endpoint_world ''MINIO_ENDPOINT'') ''minio2-api.aihub.ovh''"
    by (simp add: bad_endpoint_world_def example_world_def or_default_def)
  have c'': "\<exists>p q. ''://bad'' = p @ ''://'' @ q"
    unfolding includes_js_iff [symmetric] by (simp add: starts_with_def)
  have u'': "\<exists>e. URL_parse bad_endpoint_world ''://bad'' = Inl e"
    by (simp add: bad_endpoint_world_def example_world_def)
  have p'': "or_default (env bad_endpoint_world ''MINIO_PORT'') ''443'' = ''443''"
    "env bad_endpoint_world ''MINIO_USE_SSL'' = None"
    by (simp_all add: bad_endpoint_world_def example_world_def or_default_def)
  from target_resolution_precedence [OF e'', of "\<lparr>hostname = [], url_port = [], protocol = []\<rparr>",
      THEN conjunct2, THEN conjunct1] c'' u''
  have k: "resolveTarget bad_endpoint_world = (''://bad'', Num 443, False)"
    by (simp add: p'' parseInt_443)
  show ?thesis using r o d k by (simp add: url_world_def)
qed

section \<open>Serving a stored file\<close>

lemma find_first:
  assumes "i < length xs" and "P (xs ! i)" and "\<forall>j<i. \<not> P (xs ! j)"
  shows "find P xs = Some (xs ! i)"
  using assms by (auto simp: find_Some_iff)

text \<open>
  When the archive directory can be listed: with a job id, the download stage answers 404
  with the body \<open>File not found for this job ID\<close> when no listed name contains the job id
  and ends with \<open>.mp3\<close>; otherwise it reads the first such name of the listing and, when
  the read succeeds, serves its bytes with \<open>Content-Type: audio/mpeg\<close> and the byte length
  as \<open>Content-Length\<close>.
\<close>

lemma download_first_match:
  assumes "jobId \<noteq> []" and "readdir (the_fs w) = Inr files"
  shows "((\<forall>file \<in> set files. \<not> ((\<exists>p q. file = p @ jobId @ q) \<and> (\<exists>p. file = p @ ''.mp3''))) \<longrightarrow>
            GET_download w jobId =
              (JsonResponse 404 (ErrorBody ''File not found for this job ID''), [FsReaddir])) \<and>
         (\<forall>i fileBuffer.
            i < length files \<and>
            (\<exists>p q. files ! i = p @ jobId @ q) \<and> (\<exists>p. files ! i = p @ ''.mp3'') \<and>
            (\<forall>j<i. \<not> ((\<exists>p q. files ! j = p @ jobId @ q) \<and> (\<exists>p. files ! j = p @ ''.mp3''))) \<and>
            readFile (the_fs w) (files ! i) = Inr fileBuffer \<longrightarrow>
            GET_download w jobId =
              (FileResponse fileBuffer
                 [(''Content-Type'', ''audio/mpeg''),
                  (''Content-Disposition'', ''attachment; filename='' @ quoted (files ! i)),
                  (''Content-Length'', show_nat (length fileBuffer))],
               [FsReaddir, FsReadFile (files ! i)]))"
proof -
  let ?P = "\<lambda>file. includes_js file jobId \<and> ends_with file ''.mp3''"
  have P: "?P name \<longleftrightarrow> (\<exists>p q. name = p @ jobId @ q) \<and> (\<exists>p. name = p @ ''.mp3'')" for name
    by (simp only: includes_js_iff ends_with_iff)
  have none: "GET_download w jobId =
      (JsonResponse 404 (ErrorBody ''File not found for this job ID''), [FsReaddir])"
    if "\<forall>file \<in> set files. \<not> ?P file"
  proof -
    from that have "find ?P files = None" by (simp add: find_None_iff)
    then show ?thesis using assms by (simp add: GET_download_def io_defs)
  qed
  have some: "GET_download w jobId =
              (FileResponse fileBuffer
                 [(''Content-Type'', ''audio/mpeg''),
                  (''Content-Disposition'', ''attachment; filename='' @ quoted (files ! i)),
                  (''Content-Length'', show_nat (length fileBuffer))],
               [FsReaddir, FsReadFile (files ! i)])"
    if "i < length files" "?P (files ! i)" "\<forall>j<i. \<not> ?P (files ! j)"
      "readFile (the_fs w) (files ! i) = Inr fileBuffer" for i fileBuffer
  proof -
    from that have "find ?P files = Some (files ! i)" by (intro find_first) auto
    then show ?thesis using assms that(4) by (simp add: GET_download_def io_defs)
  qed
  show ?thesis
    using none some unfolding P by blast
qed

lemma show_nat_3: "show_nat (Suc (Suc (Suc 0))) = ''3''"
  by (simp add: show_nat.simps [of "Suc (Suc (Suc 0))"] digit_char_def)

text \<open>A listing with two names that match \<open>job_1_a\<close>, and none that matches \<open>job_2\<close>.\<close>

lemma download_first_match_example:
  "GET_download example_world ''job_1_a'' =
     (FileResponse [65, 66, 67]
        [(''Content-Type'', ''audio/mpeg''),
         (''Content-Disposition'', ''attachment; filename='' @ quoted ''podcast_job_1_a.mp3''),
         (''Content-Length'', ''3'')],
      [FsReaddir, FsReadFile ''podcast_job_1_a.mp3'']) \<and>
   GET_download example_world ''job_2'' =
     (JsonResponse 404 (ErrorBody ''File not found for this job ID''), [FsReaddir])"
proof -
  let ?files = "[''notes.txt'', ''podcast_job_1_a.mp3'', ''Other_job_1_a.mp3'']"
  have d: "readdir (the_fs example_world) = Inr ?files"
    by (simp add: example_world_def example_fs_def)
  have j1: "''job_1_a'' \<noteq> []" and j2: "''job_2'' \<noteq> []"
    by simp_all
  have l: "1 < length ?files"
    by simp
  have f: "readFile (the_fs example_world) (?files ! 1) = Inr [65, 66, 67]"
    by (simp add: example_world_def example_fs_def)
  have m1: "\<exists>p q. ?files ! 1 = p @ ''job_1_a'' @ q"
    unfolding includes_js_iff [symmetric] by (simp add: starts_with_def)
  have m2: "\<exists>p. ?files ! 1 = p @ ''.mp3''"
    unfolding ends_with_iff [symmetric] by (simp add: ends_with_def)
  have "\<not> (\<exists>p. ?files ! 0 = p @ ''.mp3'')"
    unfolding ends_with_iff [symmetric] by (simp add: ends_with_def)
  then have n: "\<forall>j<1. \<not> ((\<exists>p q. ?files ! j = p @ ''job_1_a'' @ q) \<and> (\<exists>p. ?files ! j = p @ ''.mp3''))"
    by (simp only: less_one) blast
  have "\<forall>name \<in> set ?files. \<not> includes_js name ''job_2''"
    by (simp add: starts_with_def)
  then have z: "\<forall>name \<in> set ?files.
      \<not> ((\<exists>p q. name = p @ ''job_2'' @ q) \<and> (\<exists>p. name = p @ ''.mp3''))"
    unfolding includes_js_iff by blast
  note t1 = download_first_match [OF j1 d]
  note t2 = download_first_match [OF j2 d]
  from l m1 m2 n f
  have "1 < length ?files \<and>
      (\<exists>p q. ?files ! 1 = p @ ''job_1_a'' @ q) \<and> (\<exists>p. ?files ! 1 = p @ ''.mp3'') \<and>
      (\<forall>j<1. \<not> ((\<exists>p q. ?files ! j = p @ ''job_1_a'' @ q) \<and> (\<exists>p. ?files ! j = p @ ''.mp3''))) \<and>
      readFile (the_fs example_world) (?files ! 1) = Inr [65, 66, 67]"
    by blast
  from t1 [THEN conjunct2, THEN spec, THEN spec, THEN mp, OF this]
  have a: "GET_download example_world ''job_1_a'' =
     (FileResponse [65, 66, 67]
        [(''Content-Type'', ''audio/mpeg''),
         (''Content-Disposition'', ''attachment; filename='' @ quoted ''podcast_job_1_a.mp3''),
         (''Content-Length'', ''3'')],
      [FsReaddir, FsReadFile ''podcast_job_1_a.mp3''])"
    by (simp add: show_nat_3)
  from t2 [THEN conjunct1, THEN mp, OF z]
  have b: "GET_download example_world ''job_2'' =
     (JsonResponse 404 (ErrorBody ''File not found for this job ID''), [FsReaddir])" .
  show ?thesis using a b by (rule conjI)
qed

text \<open>
  Claim C7 asks for 404 whenever no file matches the job id. When the archive directory
  does not exist no file matches, the listing fails, and the download stage answers 500
  with the body \<open>Failed to serve file\<close>. The stage lists the directory without
  \<open>ensureArchiveDir\<close>, which the listing of the archive route calls first, and the
  download by file name answers 404 for a path it cannot reach.
\<close>

theorem download_without_archive_directory:
  "readdir (the_fs no_archive_world) = Inl (Error ''ENOENT'') \<and>
   GET_download no_archive_world ''job_1_a'' =
     (JsonResponse 500 (ErrorBody ''Failed to serve file''), [FsReaddir])"
  by (simp add: GET_download_def io_defs no_archive_world_def)

section \<open>The receive stage\<close>

lemma base36_alnum:
  "c \<in> set ''0123456789abcdefghijklmnopqrstuvwxyz'' \<Longrightarrow> is_alnum c"
  by (auto simp: is_alnum_def)

lemma base36_suffix_alnum:
  assumes "is_base36_fraction r"
  shows "list_all is_alnum (drop 7 r)"
proof -
  from assms consider "r = ''0''"
    | "list_all (\<lambda>c. c \<in> set ''0123456789abcdefghijklmnopqrstuvwxyz'') (drop 2 r)"
    by (auto simp: is_base36_fraction_def)
  then show ?thesis
  proof cases
    case 1
    then show ?thesis by simp
  next
    case 2
    then have "list_all is_alnum (drop 2 r)"
      using base36_alnum by (simp add: list_all_iff)
    moreover have "set (drop 7 r) \<subseteq> set (drop 2 r)"
      by (rule set_drop_subset_set_drop) simp
    ultimately show ?thesis by (auto simp: list_all_iff)
  qed
qed

lemma matches_job_shape:
  assumes "ds \<noteq> []" and "list_all is_digit ds"
  shows "matches_job_pattern (''job_'' @ ds @ ''_'' @ sfx) \<longleftrightarrow> sfx \<noteq> [] \<and> list_all is_alnum sfx"
proof -
  have u: "\<not> is_digit CHR ''_''"
    by (simp add: is_digit_def)
  have d: "\<And>x. x \<in> set ds \<Longrightarrow> is_digit x"
    using assms(2) by (simp add: list_all_iff)
  have "takeWhile is_digit (ds @ CHR ''_'' # sfx) = ds"
    using d u by (simp add: takeWhile_append2)
  moreover have "dropWhile is_digit (ds @ CHR ''_'' # sfx) = CHR ''_'' # sfx"
    using d u by (simp add: dropWhile_append2)
  ultimately show ?thesis
    using assms(1) by (simp add: matches_job_pattern_def starts_with_def)
qed

lemma matches_job_pattern_iff:
  "matches_job_pattern s \<longleftrightarrow>
     (\<exists>digits alnum. s = ''job_'' @ digits @ ''_'' @ alnum \<and> digits \<noteq> [] \<and> alnum \<noteq> [] \<and>
        list_all is_digit digits \<and> list_all is_alnum alnum)"
proof
  assume m: "matches_job_pattern s"
  then obtain q where s: "s = ''job_'' @ q"
    by (auto simp: matches_job_pattern_def starts_with_iff)
  then have r: "drop 4 s = q"
    by simp
  let ?ds = "takeWhile is_digit q" and ?r' = "dropWhile is_digit q"
  note m' = m [unfolded matches_job_pattern_def Let_def r]
  from m' have b: "?ds \<noteq> []" "starts_with ?r' ''_''" "drop 1 ?r' \<noteq> []"
    "list_all is_alnum (drop 1 ?r')"
    by blast+
  from b(2) obtain q' where r': "?r' = ''_'' @ q'"
    by (auto simp: starts_with_iff)
  then have q': "drop 1 ?r' = q'"
    by simp
  have "s = ''job_'' @ (?ds @ ?r')"
    using s by simp
  then have "s = ''job_'' @ ?ds @ ''_'' @ q'"
    by (simp only: r')
  moreover have "list_all is_digit ?ds"
    by (simp add: list_all_iff) (meson set_takeWhileD)
  ultimately show "\<exists>digits alnum. s = ''job_'' @ digits @ ''_'' @ alnum \<and> digits \<noteq> [] \<and> alnum \<noteq> [] \<and>
        list_all is_digit digits \<and> list_all is_alnum alnum"
    using b(1,3,4) unfolding q' by blast
next
  assume "\<exists>digits alnum. s = ''job_'' @ digits @ ''_'' @ alnum \<and> digits \<noteq> [] \<and> alnum \<noteq> [] \<and>
        list_all is_digit digits \<and> list_all is_alnum alnum"
  then show "matches_job_pattern s"
    using matches_job_shape by blast
qed

text \<open>
  Claim C8, as the code has it. A receive call with a non-empty transcript answers 200
  and performs no call to any provider or store. The job id is \<open>job_\<close>, the decimal clock
  value, \<open>_\<close> and the random string without its first seven characters, so it is never
  empty. When the clock is not negative and the random string is a radix-36 fraction, the
  job id is \<open>job_\<close>, a non-empty run of digits, \<open>_\<close> and a run of letters and digits, and
  it matches \<open>job_<digits>_<alnum>\<close> exactly when the random string has more than seven
  characters. The next step carries the same job id and the transcript unchanged, and the
  language \<open>pl\<close> when the request asks for \<open>pl\<close>.
\<close>

theorem receive_mints_job:
  assumes "treq_transcript req = Some transcript" and "transcript \<noteq> []"
  shows "\<exists>s. POST_transcript w (Inr req) = (JsonResponse 200 (TranscriptBody s), []) \<and>
     t_jobId s = ''job_'' @ show_int (Date_now w) @ ''_'' @ drop 7 (random_toString36 w) \<and>
     t_jobId s \<noteq> [] \<and>
     (0 \<le> Date_now w \<and> is_base36_fraction (random_toString36 w) \<longrightarrow>
        (\<exists>digits alnum. t_jobId s = ''job_'' @ digits @ ''_'' @ alnum \<and> digits \<noteq> [] \<and>
           list_all is_digit digits \<and> list_all is_alnum alnum \<and>
           alnum = drop 7 (random_toString36 w)) \<and>
        (matches_job_pattern (t_jobId s) \<longleftrightarrow> 7 < length (random_toString36 w))) \<and>
     ns_jobId (ns_body (nextStep s)) = t_jobId s \<and>
     ns_transcript (ns_body (nextStep s)) = transcript \<and>
     (treq_language req = Some ''pl'' \<longrightarrow>
        ns_language (ns_body (nextStep s)) = ''pl'' \<and> t_language s = ''pl'')"
proof -
  let ?r = "random_toString36 w"
  have pat: "(\<exists>digits alnum. mintJobId w = ''job_'' @ digits @ ''_'' @ alnum \<and> digits \<noteq> [] \<and>
           list_all is_digit digits \<and> list_all is_alnum alnum \<and> alnum = drop 7 ?r) \<and>
        (matches_job_pattern (mintJobId w) \<longleftrightarrow> 7 < length ?r)"
    if "0 \<le> Date_now w" "is_base36_fraction ?r"
  proof -
    let ?ds = "show_nat (nat (Date_now w))"
    have j: "mintJobId w = ''job_'' @ ?ds @ ''_'' @ drop 7 ?r"
      using that(1) by (simp add: mintJobId_def show_int_def)
    have ne: "?ds \<noteq> []" by (rule show_nat_nonempty)
    have dg: "list_all is_digit ?ds" by (rule show_nat_digits)
    have al: "list_all is_alnum (drop 7 ?r)"
      using that(2) by (rule base36_suffix_alnum)
    have "matches_job_pattern (mintJobId w) \<longleftrightarrow> drop 7 ?r \<noteq> [] \<and> list_all is_alnum (drop 7 ?r)"
      unfolding j using ne dg by (rule matches_job_shape)
    then have "matches_job_pattern (mintJobId w) \<longleftrightarrow> 7 < length ?r"
      using al by auto
    with j ne dg al show ?thesis by blast
  qed
  have id: "''job_'' @ show_int (Date_now w) @ ''_'' @ drop 7 ?r = mintJobId w"
    by (simp add: mintJobId_def)
  let ?selected = "case treq_language req of
              None \<Rightarrow> ''en''
            | Some language \<Rightarrow>
                if language \<noteq> [] \<and> language \<in> set validLanguages then language else ''en''"
  let ?s = "\<lparr>t_success = True,
         t_jobId = mintJobId w,
         t_message = ''Transcript received successfully'',
         t_language = ?selected,
         nextStep =
           \<lparr>ns_url =
              or_default (env w ''NEXT_PUBLIC_APP_URL'') ''http://localhost:3000''
                @ ''/api/webhook/process'',
            ns_method = ''POST'',
            ns_body =
              \<lparr>ns_jobId = mintJobId w,
               ns_transcript = transcript,
               ns_title = or_default (treq_title req) ''Untitled Podcast'',
               ns_language = ?selected,
               ns_metadata =
                 (case treq_metadata req of
                    None \<Rightarrow> JObj []
                  | Some m \<Rightarrow> if truthy_json m then m else JObj [])\<rparr>\<rparr>\<rparr>"
  have e: "POST_transcript w (Inr req) = (JsonResponse 200 (TranscriptBody ?s), [])"
    using assms
    by (simp add: POST_transcript_def io_defs Let_def truthy_def nullish_default_def)
  have ne: "mintJobId w \<noteq> []"
    by (simp add: mintJobId_def)
  have pl: "''pl'' \<in> set validLanguages"
    by (simp add: validLanguages_def)
  show ?thesis
    unfolding id
    by (rule exI [of _ ?s]) (use e ne pl pat in simp)
qed

lemma show_nat_small: "n < 10 \<Longrightarrow> show_nat n = [digit_char n]"
  by (simp add: show_nat.simps [of n])

lemma show_nat_large: "10 \<le> n \<Longrightarrow> show_nat n = show_nat (n div 10) @ [digit_char (n mod 10)]"
  by (simp add: show_nat.simps [of n])

lemma show_int_now: "show_int 1700000000000 = ''1700000000000''"
  by (simp add: show_int_def show_nat_small show_nat_large digit_char_def)

text \<open>
  Claim C8 as stated has a job id of the form \<open>job_<digits>_<alnum>\<close> for every valid call.
  When \<open>Math.random()\<close> returns \<open>0.5\<close>, which prints as \<open>0.i\<close> in radix 36, nothing is left
  after the seventh character and the job id ends with the underscore.
\<close>

theorem short_random_string_gives_no_suffix:
  "is_base36_fraction (random_toString36 half_world) \<and>
   fst (POST_transcript half_world (Inr example_transcript)) =
     JsonResponse 200 (TranscriptBody
        \<lparr>t_success = True,
         t_jobId = ''job_1700000000000_'',
         t_message = ''Transcript received successfully'',
         t_language = ''pl'',
         nextStep =
           \<lparr>ns_url = ''http://localhost:3000/api/webhook/process'',
            ns_method = ''POST'',
            ns_body =
              \<lparr>ns_jobId = ''job_1700000000000_'',
               ns_transcript = ''Hello world'',
               ns_title = ''Untitled Podcast'',
               ns_language = ''pl'',
               ns_metadata = JObj []\<rparr>\<rparr>\<rparr>) \<and>
   \<not> matches_job_pattern ''job_1700000000000_''"
proof -
  have "\<not> matches_job_pattern ''job_1700000000000_''"
    by (simp add: matches_job_pattern_def starts_with_def is_digit_def)
  then show ?thesis
    by (simp add: POST_transcript_def io_defs Let_def truthy_def nullish_default_def or_default_def
        validLanguages_def mintJobId_def show_int_now is_base36_fraction_def starts_with_def
        half_world_def example_world_def example_transcript_def)
qed

text \<open>The scenario of the spec: the transcript \<open>Hello world\<close> with language \<open>pl\<close>.\<close>

theorem receive_mints_job_witness:
  "\<exists>s. POST_transcript example_world (Inr example_transcript) =
          (JsonResponse 200 (TranscriptBody s), []) \<and>
        t_jobId s = ''job_1700000000000_82mvyr'' \<and>
        ns_jobId (ns_body (nextStep s)) = ''job_1700000000000_82mvyr'' \<and>
        ns_transcript (ns_body (nextStep s)) = ''Hello world'' \<and>
        ns_language (ns_body (nextStep s)) = ''pl'' \<and>
        matches_job_pattern (t_jobId s)"
proof -
  have a: "treq_transcript example_transcript = Some ''Hello world''"
    by (simp add: example_transcript_def)
  have b: "''Hello world'' \<noteq> []"
    by simp
  have l: "treq_language example_transcript = Some ''pl''"
    by (simp add: example_transcript_def)
  have j: "''job_'' @ show_int (Date_now example_world) @ ''_'' @ drop 7 (random_toString36 example_world) =
      ''job_1700000000000_82mvyr''"
    by (simp add: example_world_def show_int_now)
  have c: "0 \<le> Date_now example_world" "is_base36_fraction (random_toString36 example_world)"
    "7 < length (random_toString36 example_world)"
    by (simp_all add: example_world_def is_base36_fraction_def starts_with_def)
  from receive_mints_job [OF a b, of example_world] show ?thesis
    unfolding j using l c by metis
qed

section \<open>The upload on the concrete worlds\<close>

lemma resolveTarget_minio [simp]: "resolveTarget (w\<lparr>the_minio := m\<rparr>) = resolveTarget w"
  by (simp add: resolveTarget_def Let_def)

lemma publicUrl_minio [simp]: "publicUrl (w\<lparr>the_minio := m\<rparr>) = publicUrl w"
  by (rule ext)+ (simp add: publicUrl_def)

lemma bucketName_minio [simp]: "bucketName (w\<lparr>the_minio := m\<rparr>) = bucketName w"
  by (simp add: bucketName_def)

lemma clientOptions_minio [simp]: "clientOptions (w\<lparr>the_minio := m\<rparr>) = clientOptions w"
  by (simp add: clientOptions_def)

lemma example_target: "resolveTarget example_world = (''minio2-api.aihub.ovh'', Num 443, True)"
  by (simp add: resolveTarget_def or_default_def parseInt_443 starts_with_def example_world_def)

lemma example_bucket: "bucketName example_world = ''podcast''"
  by (simp add: bucketName_def or_default_def example_world_def)

lemma example_options:
  "clientOptions example_world =
     \<lparr>endPoint = ''minio2-api.aihub.ovh'', port = Num 443, useSSL = True,
      accessKey = ''access'', secretKey = ''secret''\<rparr>"
  by (simp add: clientOptions_def example_target) (simp add: example_world_def nullish_default_def)

lemma example_file: "artifactFilename ''podcast'' ''job_1_a'' = ''podcast_job_1_a.mp3''"
  by (simp add: artifactFilename_def safeTitle_def is_alnum_def)

lemma example_direct:
  "publicUrl example_world (''minio2-api.aihub.ovh'', Num 443, True) ''podcast'' ''podcast_job_1_a.mp3'' =
     ''https://minio2-api.aihub.ovh:443/podcast/podcast_job_1_a.mp3''"
  by (simp add: publicUrl_def show_number_def show_int_def show_nat_small show_nat_large digit_char_def)

lemma public_policy_is_public: "isPublic public_policy = Inr True"
  by (simp add: public_policy_def stmtIsPublic_def)

lemma private_policy_is_private: "isPublic private_policy = Inr False"
  by (simp add: private_policy_def)

lemma policy_texts_differ: "public_policy_text \<noteq> private_policy_text"
  by (simp add: public_policy_text_def private_policy_text_def quoted_def)

lemma show_nat_604800: "show_nat 604800 = ''604800''"
  by (simp add: show_nat_small show_nat_large digit_char_def)

lemma example_world_sel:
  "env example_world ''MINIO_ACCESS_KEY'' = Some ''access''"
  "env example_world ''MINIO_SECRET_KEY'' = Some ''secret''"
  "env example_world ''NEXT_PUBLIC_APP_URL'' = None"
  "the_minio example_world = public_minio"
  "the_fs example_world = example_fs"
  "JSON_parse example_world public_policy_text = Inr public_policy"
  "JSON_parse example_world private_policy_text = Inr private_policy"
  "Buffer_from_base64 example_world ''QUJD'' = [65, 66, 67]"
  "createDialogue example_world inputs = Inr (Ok ''QUJD'')"
  using policy_texts_differ by (simp_all add: example_world_def)

lemmas example_env =
  example_target example_bucket example_options example_file example_direct
  public_policy_is_public private_policy_is_private example_world_sel
  public_minio_def truthy_def base64Data_def

lemma example_upload_eval:
  "uploadToMinIOStorage example_world ''QUJD'' ''podcast'' ''job_1_a'' =
     (Inr \<lparr>success = True,
           upload_url = Some ''https://minio2-api.aihub.ovh:443/podcast/podcast_job_1_a.mp3'',
           upload_error = None\<rparr>,
      [ImportMinio,
       NewClient \<lparr>endPoint = ''minio2-api.aihub.ovh'', port = Num 443, useSSL = True,
                  accessKey = ''access'', secretKey = ''secret''\<rparr>,
       BucketExists ''podcast'', SetBucketPolicy ''podcast'',
       PutObject ''podcast'' ''podcast_job_1_a.mp3'' [65, 66, 67] 3,
       GetBucketPolicy ''podcast''])"
  by (simp add: upload_eq generateUrl_eq example_env Let_def)

lemma private_upload_eval:
  "uploadToMinIOStorage private_world ''QUJD'' ''podcast'' ''job_1_a'' =
     (Inr \<lparr>success = True,
           upload_url = Some ''https://minio2-api.aihub.ovh/podcast/podcast_job_1_a.mp3?X-Amz-Expires=604800'',
           upload_error = None\<rparr>,
      [ImportMinio,
       NewClient \<lparr>endPoint = ''minio2-api.aihub.ovh'', port = Num 443, useSSL = True,
                  accessKey = ''access'', secretKey = ''secret''\<rparr>,
       BucketExists ''podcast'', SetBucketPolicy ''podcast'',
       PutObject ''podcast'' ''podcast_job_1_a.mp3'' [65, 66, 67] 3,
       GetBucketPolicy ''podcast'',
       PresignedGetObject ''podcast'' ''podcast_job_1_a.mp3'' 604800])"
  by (simp add: private_world_def upload_eq generateUrl_eq example_env Let_def show_nat_604800)

lemma unreadable_upload_eval:
  "uploadToMinIOStorage unreadable_policy_world ''QUJD'' ''podcast'' ''job_1_a'' =
     (Inr \<lparr>success = True,
           upload_url = Some ''https://minio2-api.aihub.ovh:443/podcast/podcast_job_1_a.mp3'',
           upload_error = None\<rparr>,
      [ImportMinio,
       NewClient \<lparr>endPoint = ''minio2-api.aihub.ovh'', port = Num 443, useSSL = True,
                  accessKey = ''access'', secretKey = ''secret''\<rparr>,
       BucketExists ''podcast'', SetBucketPolicy ''podcast'',
       PutObject ''podcast'' ''podcast_job_1_a.mp3'' [65, 66, 67] 3,
       GetBucketPolicy ''podcast''])"
  by (simp add: unreadable_policy_world_def upload_eq generateUrl_eq example_env Let_def)

lemma policy_denied_upload_eval:
  "uploadToMinIOStorage policy_denied_world ''QUJD'' ''podcast'' ''job_1_a'' =
     (Inr \<lparr>success = True,
           upload_url = Some ''https://minio2-api.aihub.ovh:443/podcast/podcast_job_1_a.mp3'',
           upload_error = None\<rparr>,
      [ImportMinio,
       NewClient \<lparr>endPoint = ''minio2-api.aihub.ovh'', port = Num 443, useSSL = True,
                  accessKey = ''access'', secretKey = ''secret''\<rparr>,
       BucketExists ''podcast'', SetBucketPolicy ''podcast'',
       PutObject ''podcast'' ''podcast_job_1_a.mp3'' [65, 66, 67] 3,
       GetBucketPolicy ''podcast''])"
  by (simp add: policy_denied_world_def upload_eq generateUrl_eq example_env Let_def)

lemma put_failure_upload_eval:
  "uploadToMinIOStorage put_failure_world ''QUJD'' ''podcast'' ''job_1_a'' =
     (Inr \<lparr>success = False, upload_url = None, upload_error = Some ''connect ECONNREFUSED''\<rparr>,
      [ImportMinio,
       NewClient \<lparr>endPoint = ''minio2-api.aihub.ovh'', port = Num 443, useSSL = True,
                  accessKey = ''access'', secretKey = ''secret''\<rparr>,
       BucketExists ''podcast'', SetBucketPolicy ''podcast'',
       PutObject ''podcast'' ''podcast_job_1_a.mp3'' [65, 66, 67] 3])"
  by (simp add: put_failure_world_def upload_eq generateUrl_eq example_env Let_def or_default_def)

section \<open>The approve stage without and with the upload\<close>

lemma or_default_None: "or_default None d = d"
  by (simp add: or_default_def)

text \<open>
  Claim C2. When the request's \<open>uploadToMinIO\<close> is absent or false, the approve stage
  performs no MinIO operation at all, on any path; and whenever it answers 200, \<open>minioUrl\<close>
  is null and \<open>downloadUrl\<close> is the local download endpoint followed by the request's job
  id.
\<close>

theorem approve_without_upload:
  assumes "req_uploadToMinIO req = None \<or> req_uploadToMinIO req = Some False"
  shows "(\<forall>e \<in> set (snd (POST_approve w (Inr req))). \<not> is_minio_event e) \<and>
         (\<forall>b. fst (POST_approve w (Inr req)) = JsonResponse 200 b \<longrightarrow>
            (\<exists>s jobId. b = ApproveBody s \<and> req_jobId req = Some jobId \<and> minioUrl s = None \<and>
               downloadUrl s =
                 or_default (env w ''NEXT_PUBLIC_APP_URL'') ''http://localhost:3000''
                   @ ''/api/webhook/download/'' @ jobId))"
proof -
  have off: "req_uploadToMinIO req \<noteq> Some True"
    using assms by auto
  have "\<exists>s jobId. b = ApproveBody s \<and> req_jobId req = Some jobId \<and> minioUrl s = None \<and>
               downloadUrl s =
                 or_default (env w ''NEXT_PUBLIC_APP_URL'') ''http://localhost:3000''
                   @ ''/api/webhook/download/'' @ jobId"
    if h: "fst (POST_approve w (Inr req)) = JsonResponse 200 b" for b
  proof -
    from POST_approve_200 [OF h] obtain conv jobId audio mu tu where
      a: "req_conversation req = Some conv" "conv \<noteq> []" "req_jobId req = Some jobId" "jobId \<noteq> []"
      "createDialogue w (dialogueInputs conv (or_default (req_voice1 req) ''FF7KdobWPaiR0vkcALHF'')
           (or_default (req_voice2 req) ''BpjGufoPiobT79j2vtj4'')) = Inr (Ok audio)"
      "fst (ensureArchiveDir w) = Inr ()"
      "writeFile (the_fs w) (artifactFilename (or_default (req_title req) ''podcast'') jobId)
           (Buffer_from_base64 w (base64Data audio)) = Inr ()"
      "uploadStep w req audio jobId = (Inr mu, tu)"
      by blast
    from a(8) off have "mu = None"
      by (simp add: uploadStep_off)
    with POST_approve_ok [OF a] h a(3) show ?thesis
      by (auto simp: or_default_None localDownloadUrl_def)
  qed
  with POST_approve_no_minio [OF off] show ?thesis
    by blast
qed

text \<open>The approve scenario of the spec: one turn, job id \<open>job_1_a\<close>, no upload.\<close>

theorem approve_without_upload_witness:
  "snd (POST_approve example_world (Inr example_approve)) =
     [CreateDialogue [\<lparr>input_text = ''Hi'', voiceId = ''FF7KdobWPaiR0vkcALHF''\<rparr>],
      FsAccess, FsWriteFile ''podcast_job_1_a.mp3'' [65, 66, 67]] \<and>
   (\<exists>s. fst (POST_approve example_world (Inr example_approve)) = JsonResponse 200 (ApproveBody s) \<and>
        minioUrl s = None \<and>
        downloadUrl s = ''http://localhost:3000/api/webhook/download/job_1_a'')"
proof -
  have off: "req_uploadToMinIO example_approve = None \<or> req_uploadToMinIO example_approve = Some False"
    by (simp add: example_approve_def)
  have j: "req_jobId example_approve = Some ''job_1_a''"
    by (simp add: example_approve_def)
  have u: "or_default (env example_world ''NEXT_PUBLIC_APP_URL'') ''http://localhost:3000''
      @ ''/api/webhook/download/'' @ ''job_1_a'' = ''http://localhost:3000/api/webhook/download/job_1_a''"
    by (simp add: example_world_sel or_default_def)
  have r: "fst (POST_approve example_world (Inr example_approve)) = JsonResponse 200 (ApproveBody
        \<lparr>ok_success = True, ok_jobId = ''job_1_a'',
         downloadUrl = ''http://localhost:3000/api/webhook/download/job_1_a'',
         minioUrl = None, filename = ''podcast_job_1_a.mp3'',
         ok_message = ''Audio generated successfully''\<rparr>)"
    by (simp add: example_approve_eval)
  from approve_without_upload [OF off, of example_world, THEN conjunct2, THEN spec, THEN mp, OF r]
  have "\<exists>s. fst (POST_approve example_world (Inr example_approve)) = JsonResponse 200 (ApproveBody s) \<and>
        minioUrl s = None \<and>
        downloadUrl s = ''http://localhost:3000/api/webhook/download/job_1_a''"
    using r j u by auto
  then show ?thesis
    by (simp add: example_approve_eval)
qed

text \<open>The direct URL is never the empty string.\<close>

lemma publicUrl_nonempty: "publicUrl w target b f \<noteq> []"
  by (cases target) (simp add: publicUrl_def)

text \<open>
  Claim C10. In every 200 response of the approve stage, \<open>downloadUrl\<close> equals \<open>minioUrl\<close>
  whenever \<open>minioUrl\<close> is a non-empty URL, and is the local download endpoint of the job
  when \<open>minioUrl\<close> is null; and when the upload was requested and succeeded, \<open>minioUrl\<close>
  is the URL the upload yielded.
\<close>

theorem downloadUrl_prefers_remote:
  assumes "fst (POST_approve w (Inr req)) = JsonResponse 200 (ApproveBody s)"
  shows "(\<forall>u. minioUrl s = Some u \<and> u \<noteq> [] \<longrightarrow> downloadUrl s = u) \<and>
         (minioUrl s = None \<longrightarrow>
            downloadUrl s =
              or_default (env w ''NEXT_PUBLIC_APP_URL'') ''http://localhost:3000''
                @ ''/api/webhook/download/'' @ ok_jobId s) \<and>
         (\<forall>conv audio r t.
            req_uploadToMinIO req = Some True \<and>
            req_conversation req = Some conv \<and>
            createDialogue w (dialogueInputs conv
              (or_default (req_voice1 req) ''FF7KdobWPaiR0vkcALHF'')
              (or_default (req_voice2 req) ''BpjGufoPiobT79j2vtj4'')) = Inr (Ok audio) \<and>
            uploadToMinIOStorage w audio (nullish_default (req_title req) ''podcast'') (ok_jobId s)
              = (Inr r, t) \<and>
            success r \<longrightarrow>
            minioUrl s = upload_url r)"
proof -
  from POST_approve_200 [OF assms] obtain conv jobId audio mu tu where
    a: "req_conversation req = Some conv" "conv \<noteq> []" "req_jobId req = Some jobId" "jobId \<noteq> []"
    "createDialogue w (dialogueInputs conv (or_default (req_voice1 req) ''FF7KdobWPaiR0vkcALHF'')
         (or_default (req_voice2 req) ''BpjGufoPiobT79j2vtj4'')) = Inr (Ok audio)"
    "fst (ensureArchiveDir w) = Inr ()"
    "writeFile (the_fs w) (artifactFilename (or_default (req_title req) ''podcast'') jobId)
         (Buffer_from_base64 w (base64Data audio)) = Inr ()"
    "uploadStep w req audio jobId = (Inr mu, tu)"
    by blast
  from POST_approve_ok [OF a] assms
  have s: "ok_jobId s = jobId" "minioUrl s = mu"
    "downloadUrl s = or_default mu (localDownloadUrl w jobId)"
    by auto
  have 1: "downloadUrl s = u" if "minioUrl s = Some u" "u \<noteq> []" for u
    using that s by (simp add: or_default_def)
  have 2: "downloadUrl s =
              or_default (env w ''NEXT_PUBLIC_APP_URL'') ''http://localhost:3000''
                @ ''/api/webhook/download/'' @ ok_jobId s"
    if "minioUrl s = None"
    using that s by (simp add: or_default_None localDownloadUrl_def)
  have 3: "minioUrl s = upload_url r"
    if "req_uploadToMinIO req = Some True" "req_conversation req = Some conv'"
      "createDialogue w (dialogueInputs conv'
              (or_default (req_voice1 req) ''FF7KdobWPaiR0vkcALHF'')
              (or_default (req_voice2 req) ''BpjGufoPiobT79j2vtj4'')) = Inr (Ok audio')"
      "uploadToMinIOStorage w audio' (nullish_default (req_title req) ''podcast'') (ok_jobId s)
              = (Inr r, t)"
      "success r" for conv' audio' r t
  proof -
    from that(2) a(1) have "conv' = conv" by simp
    with that(3) a(5) have "audio' = audio" by simp
    with that(1,4,5) a(8) s(1) have "mu = upload_url r"
      by (simp add: uploadStep_eq)
    with s(2) show ?thesis by simp
  qed
  show ?thesis using 1 2 3 by blast
qed

lemma example_upload_approve:
  assumes "uploadToMinIOStorage (example_world\<lparr>the_minio := m\<rparr>) ''QUJD'' ''podcast'' ''job_1_a'' = (Inr r, t)"
  shows "POST_approve (example_world\<lparr>the_minio := m\<rparr>) (Inr example_upload) =
     (JsonResponse 200 (ApproveBody
        \<lparr>ok_success = True, ok_jobId = ''job_1_a'',
         downloadUrl = or_default (if success r then upload_url r else None)
            ''http://localhost:3000/api/webhook/download/job_1_a'',
         minioUrl = (if success r then upload_url r else None),
         filename = ''podcast_job_1_a.mp3'',
         ok_message = ''Audio generated successfully''\<rparr>),
      [CreateDialogue [\<lparr>input_text = ''Hi'', voiceId = ''FF7KdobWPaiR0vkcALHF''\<rparr>],
       FsAccess, FsWriteFile ''podcast_job_1_a.mp3'' [65, 66, 67]] @ t)"
proof -
  let ?w = "example_world\<lparr>the_minio := m\<rparr>"
  have "POST_approve ?w (Inr example_upload) =
     (JsonResponse 200 (ApproveBody
        \<lparr>ok_success = True, ok_jobId = ''job_1_a'',
         downloadUrl = or_default (if success r then upload_url r else None)
            (localDownloadUrl ?w ''job_1_a''),
         minioUrl = (if success r then upload_url r else None),
         filename = artifactFilename (or_default (req_title example_upload) ''podcast'') ''job_1_a'',
         ok_message = ''Audio generated successfully''\<rparr>),
      CreateDialogue (dialogueInputs [\<lparr>speaker = ''Speaker1'', utterance = ''Hi''\<rparr>]
          (or_default (req_voice1 example_upload) ''FF7KdobWPaiR0vkcALHF'')
          (or_default (req_voice2 example_upload) ''BpjGufoPiobT79j2vtj4''))
        # snd (ensureArchiveDir ?w)
        @ FsWriteFile (artifactFilename (or_default (req_title example_upload) ''podcast'') ''job_1_a'')
            (Buffer_from_base64 ?w (base64Data ''QUJD''))
        # t)"
    using assms
    by (intro POST_approve_ok)
       (simp_all add: example_upload_def example_approve_def example_world_sel ensureArchiveDir_eq
          example_fs_def uploadStep_eq nullish_default_def)
  then show ?thesis
    by (simp add: example_upload_def example_approve_def example_world_sel ensureArchiveDir_eq
          example_fs_def or_default_None example_file dialogueInputs_def base64Data_def
          localDownloadUrl_def)
qed

text \<open>The example request with the upload, on the world with the private bucket.\<close>

theorem downloadUrl_prefers_remote_witness:
  "\<exists>t. POST_approve private_world (Inr example_upload) =
     (JsonResponse 200 (ApproveBody
        \<lparr>ok_success = True, ok_jobId = ''job_1_a'',
         downloadUrl = ''https://minio2-api.aihub.ovh/podcast/podcast_job_1_a.mp3?X-Amz-Expires=604800'',
         minioUrl = Some ''https://minio2-api.aihub.ovh/podcast/podcast_job_1_a.mp3?X-Amz-Expires=604800'',
         filename = ''podcast_job_1_a.mp3'',
         ok_message = ''Audio generated successfully''\<rparr>), t)"
proof -
  let ?u = "''https://minio2-api.aihub.ovh/podcast/podcast_job_1_a.mp3?X-Amz-Expires=604800''"
  from example_upload_approve [OF private_upload_eval [unfolded private_world_def]]
  obtain s t where p: "POST_approve private_world (Inr example_upload) = (JsonResponse 200 (ApproveBody s), t)"
    and s: "ok_success s = True" "ok_jobId s = ''job_1_a''" "minioUrl s = Some ?u"
      "filename s = ''podcast_job_1_a.mp3''" "ok_message s = ''Audio generated successfully''"
    by (simp add: private_world_def)
  from p have "fst (POST_approve private_world (Inr example_upload)) = JsonResponse 200 (ApproveBody s)"
    by simp
  from downloadUrl_prefers_remote [OF this, THEN conjunct1, THEN spec, of ?u] s(3)
  have "downloadUrl s = ?u"
    by simp
  with s have "s = \<lparr>ok_success = True, ok_jobId = ''job_1_a'', downloadUrl = ?u, minioUrl = Some ?u,
         filename = ''podcast_job_1_a.mp3'', ok_message = ''Audio generated successfully''\<rparr>"
    by simp
  with p show ?thesis by blast
qed

section \<open>The URL of an uploaded object\<close>

lemma generateUrl_trace: "\<exists>post. snd (generateUrl w target b f) = GetBucketPolicy b # post"
  by (simp add: generateUrl_eq split: sum.splits bool.splits)

lemma upload_success_cases:
  assumes "uploadToMinIOStorage w a title j = (Inr r, t)" and "success r"
  shows "\<exists>pre. t = pre
             @ [PutObject (bucketName w) (artifactFilename title j)
                  (Buffer_from_base64 w (base64Data a)) (length (Buffer_from_base64 w (base64Data a)))]
             @ snd (generateUrl w (resolveTarget w) (bucketName w) (artifactFilename title j)) \<and>
           (\<forall>b f n. PresignedGetObject b f n \<notin> set pre) \<and>
           upload_url r = Some (projr (fst (generateUrl w (resolveTarget w) (bucketName w) (artifactFilename title j))))"
  using assms
  by (auto simp: upload_eq Let_def split: sum.splits if_splits)

text \<open>
  Claim C1, as the code has it. After a successful upload the object has been put and
  the bucket policy is read right after it. When the policy is read, parsed and found
  public, the URL of the result is the direct one,
  \<open>protocol://endpoint:port/bucket/filename\<close>, and no signed URL is requested. When it is
  read, parsed and found not public, a signed URL of the object is requested for
  \<open>604800\<close> seconds (seven days), and nothing else is ever signed; the result carries the
  signed URL when it is issued and the direct URL when the signing fails. When the policy
  cannot be read, parsed or inspected, the URL is the direct one again and no signed URL
  is requested.
\<close>

theorem upload_url_issuance:
  assumes "uploadToMinIOStorage w audioBase64 title jobId = (Inr r, t)" and "success r"
    and "resolveTarget w = (host, port_number, ssl)"
    and "direct = (if ssl then ''https'' else ''http'') @ ''://'' @ host @ '':''
           @ show_number (Number_toString w) port_number @ ''/'' @ bucketName w @ ''/'' @ artifactFilename title jobId"
    and "bucket = bucketName w" and "object = artifactFilename title jobId"
  shows "(\<exists>pre post. t = pre
            @ [PutObject bucket object (Buffer_from_base64 w (base64Data audioBase64))
                 (length (Buffer_from_base64 w (base64Data audioBase64))),
               GetBucketPolicy bucket]
            @ post) \<and>
     (\<forall>p obj. getBucketPolicy (the_minio w) bucket = Inr p \<and> JSON_parse w p = Inr obj \<and>
        isPublic obj = Inr True \<longrightarrow>
        upload_url r = Some direct \<and> (\<forall>b f n. PresignedGetObject b f n \<notin> set t)) \<and>
     (\<forall>p obj. getBucketPolicy (the_minio w) bucket = Inr p \<and> JSON_parse w p = Inr obj \<and>
        isPublic obj = Inr False \<longrightarrow>
        PresignedGetObject bucket object 604800 \<in> set t \<and>
        (\<forall>b f n. PresignedGetObject b f n \<in> set t \<longrightarrow> b = bucket \<and> f = object \<and> n = 604800) \<and>
        (\<forall>u. presignedGetObject (the_minio w) bucket object 604800 = Inr u \<longrightarrow> upload_url r = Some u) \<and>
        (\<forall>e. presignedGetObject (the_minio w) bucket object 604800 = Inl e \<longrightarrow>
           upload_url r = Some direct)) \<and>
     ((\<exists>e. getBucketPolicy (the_minio w) bucket = Inl e) \<or>
      (\<exists>p e. getBucketPolicy (the_minio w) bucket = Inr p \<and> JSON_parse w p = Inl e) \<or>
      (\<exists>p obj e. getBucketPolicy (the_minio w) bucket = Inr p \<and> JSON_parse w p = Inr obj \<and>
         isPublic obj = Inl e) \<longrightarrow>
        upload_url r = Some direct \<and> (\<forall>b f n. PresignedGetObject b f n \<notin> set t))"
proof -
  let ?g = "generateUrl w (resolveTarget w) bucket object"
  let ?put = "PutObject bucket object (Buffer_from_base64 w (base64Data audioBase64))
                 (length (Buffer_from_base64 w (base64Data audioBase64)))"
  from upload_success_cases [OF assms(1,2)] assms(5,6) obtain pre where
    t: "t = pre @ [?put] @ snd ?g" and pre: "\<forall>b f n. PresignedGetObject b f n \<notin> set pre"
    and u: "upload_url r = Some (projr (fst ?g))"
    by auto
  have d: "publicUrl w (resolveTarget w) bucket object = direct"
    using assms(3-6) by (simp add: publicUrl_def)
  from generateUrl_trace [of w "resolveTarget w" bucket object] obtain post where
    "snd ?g = GetBucketPolicy bucket # post"
    by blast
  with t have 0: "\<exists>pre post. t = pre @ [?put, GetBucketPolicy bucket] @ post"
    by auto
  have 1: "upload_url r = Some direct \<and> (\<forall>b f n. PresignedGetObject b f n \<notin> set t)"
    if "getBucketPolicy (the_minio w) bucket = Inr p" "JSON_parse w p = Inr obj" "isPublic obj = Inr True"
    for p obj
    using that u d t pre by (simp add: generateUrl_eq)
  have 2: "PresignedGetObject bucket object 604800 \<in> set t \<and>
        (\<forall>b f n. PresignedGetObject b f n \<in> set t \<longrightarrow> b = bucket \<and> f = object \<and> n = 604800) \<and>
        (\<forall>u. presignedGetObject (the_minio w) bucket object 604800 = Inr u \<longrightarrow> upload_url r = Some u) \<and>
        (\<forall>e. presignedGetObject (the_minio w) bucket object 604800 = Inl e \<longrightarrow>
           upload_url r = Some direct)"
    if "getBucketPolicy (the_minio w) bucket = Inr p" "JSON_parse w p = Inr obj" "isPublic obj = Inr False"
    for p obj
    using that u d t pre
    by (cases "presignedGetObject (the_minio w) bucket object 604800") (auto simp: generateUrl_eq)
  have 3: "upload_url r = Some direct \<and> (\<forall>b f n. PresignedGetObject b f n \<notin> set t)"
    if "(\<exists>e. getBucketPolicy (the_minio w) bucket = Inl e) \<or>
      (\<exists>p e. getBucketPolicy (the_minio w) bucket = Inr p \<and> JSON_parse w p = Inl e) \<or>
      (\<exists>p obj e. getBucketPolicy (the_minio w) bucket = Inr p \<and> JSON_parse w p = Inr obj \<and>
         isPublic obj = Inl e)"
    using that u t pre d by (auto simp: generateUrl_eq)
  from 0 1 2 3 show ?thesis by blast
qed

text \<open>
  Claim C1 as stated asks for a signed URL when the policy read fails. On the world whose
  \<open>getBucketPolicy\<close> is denied, and whose store would sign if asked, the upload succeeds
  with the direct URL, and the store is never asked to sign.
\<close>

theorem policy_read_failure_gives_direct_url:
  "getBucketPolicy (the_minio unreadable_policy_world) ''podcast'' = Inl (Error ''AccessDenied'') \<and>
   presignedGetObject (the_minio unreadable_policy_world) ''podcast'' ''podcast_job_1_a.mp3'' 604800 =
     Inr ''https://minio2-api.aihub.ovh/podcast/podcast_job_1_a.mp3?X-Amz-Expires=604800'' \<and>
   uploadToMinIOStorage unreadable_policy_world ''QUJD'' ''podcast'' ''job_1_a'' =
     (Inr \<lparr>success = True,
           upload_url = Some ''https://minio2-api.aihub.ovh:443/podcast/podcast_job_1_a.mp3'',
           upload_error = None\<rparr>,
      [ImportMinio,
       NewClient \<lparr>endPoint = ''minio2-api.aihub.ovh'', port = Num 443, useSSL = True,
                  accessKey = ''access'', secretKey = ''secret''\<rparr>,
       BucketExists ''podcast'', SetBucketPolicy ''podcast'',
       PutObject ''podcast'' ''podcast_job_1_a.mp3'' [65, 66, 67] 3,
       GetBucketPolicy ''podcast''])"
  by (simp add: unreadable_upload_eval)
     (simp add: unreadable_policy_world_def public_minio_def show_nat_604800)

text \<open>
  The private bucket of the example gets the signed URL, and the signing is in the trace;
  the public one gets the direct URL, and the trace ends with the policy read.
\<close>

theorem upload_url_issuance_witness:
  "(\<exists>r t. uploadToMinIOStorage private_world ''QUJD'' ''podcast'' ''job_1_a'' = (Inr r, t) \<and> success r \<and>
      upload_url r =
        Some ''https://minio2-api.aihub.ovh/podcast/podcast_job_1_a.mp3?X-Amz-Expires=604800'' \<and>
      PresignedGetObject ''podcast'' ''podcast_job_1_a.mp3'' 604800 \<in> set t) \<and>
   (\<exists>r t. uploadToMinIOStorage example_world ''QUJD'' ''podcast'' ''job_1_a'' = (Inr r, t) \<and> success r \<and>
      upload_url r = Some ''https://minio2-api.aihub.ovh:443/podcast/podcast_job_1_a.mp3'' \<and>
      PresignedGetObject ''podcast'' ''podcast_job_1_a.mp3'' 604800 \<notin> set t)"
proof -
  let ?signed = "''https://minio2-api.aihub.ovh/podcast/podcast_job_1_a.mp3?X-Amz-Expires=604800''"
  let ?direct = "''https://minio2-api.aihub.ovh:443/podcast/podcast_job_1_a.mp3''"
  have tg: "resolveTarget private_world = (''minio2-api.aihub.ovh'', Num 443, True)"
    by (simp add: private_world_def example_target)
  have bn: "''podcast'' = bucketName private_world"
    by (simp add: private_world_def example_bucket)
  have fn: "''podcast_job_1_a.mp3'' = artifactFilename ''podcast'' ''job_1_a''"
    by (simp add: example_file)
  have g: "getBucketPolicy (the_minio private_world) ''podcast'' = Inr private_policy_text"
    by (simp add: private_world_def)
  have jp: "JSON_parse private_world private_policy_text = Inr private_policy"
    by (simp add: private_world_def example_world_sel)
  have pg: "presignedGetObject (the_minio private_world) ''podcast'' ''podcast_job_1_a.mp3'' 604800 =
      Inr ?signed"
    by (simp add: private_world_def public_minio_def show_nat_604800)
  obtain r t where e: "uploadToMinIOStorage private_world ''QUJD'' ''podcast'' ''job_1_a'' = (Inr r, t)"
    and sr: "success r"
    using private_upload_eval by simp
  note th = upload_url_issuance [OF e sr tg refl bn fn]
  from th g jp private_policy_is_private
  have "PresignedGetObject ''podcast'' ''podcast_job_1_a.mp3'' 604800 \<in> set t \<and>
      (\<forall>u. presignedGetObject (the_minio private_world) ''podcast'' ''podcast_job_1_a.mp3'' 604800 = Inr u \<longrightarrow>
         upload_url r = Some u)"
    by blast
  with pg e sr have a: "\<exists>r t. uploadToMinIOStorage private_world ''QUJD'' ''podcast'' ''job_1_a'' = (Inr r, t) \<and>
      success r \<and> upload_url r = Some ?signed \<and>
      PresignedGetObject ''podcast'' ''podcast_job_1_a.mp3'' 604800 \<in> set t"
    by blast
  have bn': "''podcast'' = bucketName example_world"
    by (simp add: example_bucket)
  have g': "getBucketPolicy (the_minio example_world) ''podcast'' = Inr public_policy_text"
    by (simp add: example_world_sel public_minio_def)
  have ds: "(if True then ''https'' else ''http'') @ ''://'' @ ''minio2-api.aihub.ovh'' @ '':''
      @ show_number (Number_toString example_world) (Num 443) @ ''/'' @ bucketName example_world @ ''/''
      @ artifactFilename ''podcast'' ''job_1_a'' = ?direct"
    using example_direct by (simp add: publicUrl_def example_bucket example_file)
  obtain r' t' where e': "uploadToMinIOStorage example_world ''QUJD'' ''podcast'' ''job_1_a'' = (Inr r', t')"
    and sr': "success r'"
    using example_upload_eval by simp
  note th' = upload_url_issuance [OF e' sr' example_target refl bn' fn]
  from th' g' example_world_sel(6) public_policy_is_public
  have "upload_url r' = Some ((if True then ''https'' else ''http'') @ ''://'' @ ''minio2-api.aihub.ovh'' @ '':''
      @ show_number (Number_toString example_world) (Num 443) @ ''/'' @ bucketName example_world @ ''/''
      @ artifactFilename ''podcast'' ''job_1_a'') \<and>
      (\<forall>b f n. PresignedGetObject b f n \<notin> set t')"
    by blast
  then have "upload_url r' = Some ?direct \<and> PresignedGetObject ''podcast'' ''podcast_job_1_a.mp3'' 604800 \<notin> set t'"
    unfolding ds by blast
  with e' sr' have b: "\<exists>r t. uploadToMinIOStorage example_world ''QUJD'' ''podcast'' ''job_1_a'' = (Inr r, t) \<and>
      success r \<and> upload_url r = Some ?direct \<and>
      PresignedGetObject ''podcast'' ''podcast_job_1_a.mp3'' 604800 \<notin> set t"
    by blast
  show ?thesis using a b by (rule conjI)
qed

section \<open>A failing upload\<close>

lemma upload_failure:
  assumes "(\<exists>e. import_minio (the_minio w) = Inl e) \<or>
      \<not> truthy (env w ''MINIO_ACCESS_KEY'') \<or> \<not> truthy (env w ''MINIO_SECRET_KEY'') \<or>
      (\<exists>e. new_Client (the_minio w) (clientOptions w) = Inl e) \<or>
      (\<exists>e. bucketExists (the_minio w) (bucketName w) = Inl e) \<or>
      (bucketExists (the_minio w) (bucketName w) = Inr False \<and>
         (\<exists>e. makeBucket (the_minio w) (bucketName w) ''us-east-1'' = Inl e)) \<or>
      (\<exists>e. putObject (the_minio w) (bucketName w) (artifactFilename title j)
             (Buffer_from_base64 w (base64Data a)) (length (Buffer_from_base64 w (base64Data a))) = Inl e)"
  shows "\<exists>r t. uploadToMinIOStorage w a title j = (Inr r, t) \<and> \<not> success r"
  using assms
  by (auto simp: upload_eq Let_def split: sum.splits)

lemma upload_success:
  assumes "import_minio (the_minio w) = Inr ()"
    and "truthy (env w ''MINIO_ACCESS_KEY'')" and "truthy (env w ''MINIO_SECRET_KEY'')"
    and "new_Client (the_minio w) (clientOptions w) = Inr ()"
    and "bucketExists (the_minio w) (bucketName w) = Inr True \<or>
         (bucketExists (the_minio w) (bucketName w) = Inr False \<and>
          makeBucket (the_minio w) (bucketName w) ''us-east-1'' = Inr ())"
    and "putObject (the_minio w) (bucketName w) (artifactFilename title j)
           (Buffer_from_base64 w (base64Data a)) (length (Buffer_from_base64 w (base64Data a))) = Inr ()"
  shows "\<exists>u t. uploadToMinIOStorage w a title j =
           (Inr \<lparr>success = True, upload_url = Some u, upload_error = None\<rparr>, t) \<and>
         SetBucketPolicy (bucketName w) \<in> set t \<and> GetBucketPolicy (bucketName w) \<in> set t"
  using assms generateUrl_trace [of w "resolveTarget w" "bucketName w" "artifactFilename title j"]
  by (auto simp: upload_eq Let_def)

text \<open>
  Claim C3, as the code has it. Take an approve call that asks for the upload and whose
  synthesis and local write succeed. When the upload fails, that is when the import of
  the client library or the construction of the client throws, a credential is missing,
  or \<open>bucketExists\<close>, \<open>makeBucket\<close> or \<open>putObject\<close> raises, the stage answers 200 with
  \<open>success: true\<close>, \<open>minioUrl\<close> null and the local download endpoint as \<open>downloadUrl\<close>, and
  the local file has been written. When none of these happens, the stage answers 200
  with a \<open>minioUrl\<close> that is not null, after the local write and after both policy calls,
  whatever \<open>setBucketPolicy\<close>, \<open>getBucketPolicy\<close>, the parsing of the policy and
  \<open>presignedGetObject\<close> answer: their errors do not make the upload fail.
\<close>

theorem approve_survives_upload_failure:
  assumes "req_conversation req = Some conv" and "conv \<noteq> []"
    and "req_jobId req = Some jobId" and "jobId \<noteq> []"
    and "req_uploadToMinIO req = Some True"
    and "createDialogue w (dialogueInputs conv (or_default (req_voice1 req) ''FF7KdobWPaiR0vkcALHF'')
           (or_default (req_voice2 req) ''BpjGufoPiobT79j2vtj4'')) = Inr (Ok audio)"
    and "access (the_fs w) = Inr () \<or> mkdir (the_fs w) = Inr ()"
    and "buf = Buffer_from_base64 w (base64Data audio)"
    and "local_file = safeTitle (or_default (req_title req) ''podcast'') @ ''_'' @ jobId @ ''.mp3''"
    and "remote_file = safeTitle (nullish_default (req_title req) ''podcast'') @ ''_'' @ jobId @ ''.mp3''"
    and "writeFile (the_fs w) local_file buf = Inr ()"
  shows "((\<exists>e. import_minio (the_minio w) = Inl e) \<or>
      \<not> truthy (env w ''MINIO_ACCESS_KEY'') \<or> \<not> truthy (env w ''MINIO_SECRET_KEY'') \<or>
      (\<exists>e. new_Client (the_minio w) (clientOptions w) = Inl e) \<or>
      (\<exists>e. bucketExists (the_minio w) (bucketName w) = Inl e) \<or>
      (bucketExists (the_minio w) (bucketName w) = Inr False \<and>
         (\<exists>e. makeBucket (the_minio w) (bucketName w) ''us-east-1'' = Inl e)) \<or>
      (\<exists>e. putObject (the_minio w) (bucketName w) remote_file buf (length buf) = Inl e) \<longrightarrow>
      (\<exists>t. POST_approve w (Inr req) =
        (JsonResponse 200 (ApproveBody
           \<lparr>ok_success = True, ok_jobId = jobId,
            downloadUrl = or_default (env w ''NEXT_PUBLIC_APP_URL'') ''http://localhost:3000''
              @ ''/api/webhook/download/'' @ jobId,
            minioUrl = None,
            filename = local_file,
            ok_message = ''Audio generated successfully''\<rparr>), t) \<and>
        FsWriteFile local_file buf \<in> set t)) \<and>
     (import_minio (the_minio w) = Inr () \<and>
      truthy (env w ''MINIO_ACCESS_KEY'') \<and> truthy (env w ''MINIO_SECRET_KEY'') \<and>
      new_Client (the_minio w) (clientOptions w) = Inr () \<and>
      (bucketExists (the_minio w) (bucketName w) = Inr True \<or>
       (bucketExists (the_minio w) (bucketName w) = Inr False \<and>
        makeBucket (the_minio w) (bucketName w) ''us-east-1'' = Inr ())) \<and>
      putObject (the_minio w) (bucketName w) remote_file buf (length buf) = Inr () \<longrightarrow>
      (\<exists>u t. POST_approve w (Inr req) =
        (JsonResponse 200 (ApproveBody
           \<lparr>ok_success = True, ok_jobId = jobId,
            downloadUrl = or_default (Some u)
              (or_default (env w ''NEXT_PUBLIC_APP_URL'') ''http://localhost:3000''
                 @ ''/api/webhook/download/'' @ jobId),
            minioUrl = Some u,
            filename = local_file,
            ok_message = ''Audio generated successfully''\<rparr>), t) \<and>
        FsWriteFile local_file buf \<in> set t \<and>
        SetBucketPolicy (bucketName w) \<in> set t \<and> GetBucketPolicy (bucketName w) \<in> set t))"
proof -
  have dir: "fst (ensureArchiveDir w) = Inr ()"
    using assms(7) by (auto simp: ensureArchiveDir_eq split: sum.splits)
  have wr: "writeFile (the_fs w) (artifactFilename (or_default (req_title req) ''podcast'') jobId)
           (Buffer_from_base64 w (base64Data audio)) = Inr ()"
    using assms(8,9,11) by (simp add: artifactFilename_def)
  have rf: "remote_file = artifactFilename (nullish_default (req_title req) ''podcast'') jobId"
    using assms(10) by (simp add: artifactFilename_def)
  have lf: "artifactFilename (or_default (req_title req) ''podcast'') jobId = local_file"
    using assms(9) by (simp add: artifactFilename_def)
  have A: "\<exists>t. POST_approve w (Inr req) =
        (JsonResponse 200 (ApproveBody
           \<lparr>ok_success = True, ok_jobId = jobId,
            downloadUrl = or_default (env w ''NEXT_PUBLIC_APP_URL'') ''http://localhost:3000''
              @ ''/api/webhook/download/'' @ jobId,
            minioUrl = None,
            filename = local_file,
            ok_message = ''Audio generated successfully''\<rparr>), t) \<and>
        FsWriteFile local_file buf \<in> set t"
    if f: "(\<exists>e. import_minio (the_minio w) = Inl e) \<or>
      \<not> truthy (env w ''MINIO_ACCESS_KEY'') \<or> \<not> truthy (env w ''MINIO_SECRET_KEY'') \<or>
      (\<exists>e. new_Client (the_minio w) (clientOptions w) = Inl e) \<or>
      (\<exists>e. bucketExists (the_minio w) (bucketName w) = Inl e) \<or>
      (bucketExists (the_minio w) (bucketName w) = Inr False \<and>
         (\<exists>e. makeBucket (the_minio w) (bucketName w) ''us-east-1'' = Inl e)) \<or>
      (\<exists>e. putObject (the_minio w) (bucketName w) remote_file buf (length buf) = Inl e)"
  proof -
    from upload_failure [of w "nullish_default (req_title req) ''podcast''" jobId audio] f
    obtain r t where "uploadToMinIOStorage w audio (nullish_default (req_title req) ''podcast'') jobId = (Inr r, t)"
      and "\<not> success r"
      unfolding rf assms(8) by blast
    then have up: "uploadStep w req audio jobId = (Inr None, t)"
      using assms(5) by (simp add: uploadStep_eq)
    from POST_approve_ok [OF assms(1-4) assms(6) dir wr up] assms(8)
    show ?thesis
      by (simp add: or_default_None localDownloadUrl_def lf)
  qed
  have B: "\<exists>u t. POST_approve w (Inr req) =
        (JsonResponse 200 (ApproveBody
           \<lparr>ok_success = True, ok_jobId = jobId,
            downloadUrl = or_default (Some u)
              (or_default (env w ''NEXT_PUBLIC_APP_URL'') ''http://localhost:3000''
                 @ ''/api/webhook/download/'' @ jobId),
            minioUrl = Some u,
            filename = local_file,
            ok_message = ''Audio generated successfully''\<rparr>), t) \<and>
        FsWriteFile local_file buf \<in> set t \<and>
        SetBucketPolicy (bucketName w) \<in> set t \<and> GetBucketPolicy (bucketName w) \<in> set t"
    if g: "import_minio (the_minio w) = Inr ()"
      "truthy (env w ''MINIO_ACCESS_KEY'')" "truthy (env w ''MINIO_SECRET_KEY'')"
      "new_Client (the_minio w) (clientOptions w) = Inr ()"
      "bucketExists (the_minio w) (bucketName w) = Inr True \<or>
       (bucketExists (the_minio w) (bucketName w) = Inr False \<and>
        makeBucket (the_minio w) (bucketName w) ''us-east-1'' = Inr ())"
      "putObject (the_minio w) (bucketName w) remote_file buf (length buf) = Inr ()"
  proof -
    from upload_success [of w "nullish_default (req_title req) ''podcast''" jobId audio] g
    obtain u t where "uploadToMinIOStorage w audio (nullish_default (req_title req) ''podcast'') jobId =
        (Inr \<lparr>success = True, upload_url = Some u, upload_error = None\<rparr>, t)"
      and t: "SetBucketPolicy (bucketName w) \<in> set t" "GetBucketPolicy (bucketName w) \<in> set t"
      unfolding rf assms(8) by blast
    then have up: "uploadStep w req audio jobId = (Inr (Some u), t)"
      using assms(5) by (simp add: uploadStep_eq)
    from POST_approve_ok [OF assms(1-4) assms(6) dir wr up] assms(8) t
    show ?thesis
      by (auto simp: localDownloadUrl_def lf)
  qed
  from A B show ?thesis by blast
qed

text \<open>
  Claim C3 as stated covers any error of the store. On the world whose \<open>setBucketPolicy\<close>
  is denied the store raises an error, the upload goes on, and the response carries the
  remote URL as \<open>minioUrl\<close> and as \<open>downloadUrl\<close>.
\<close>

theorem policy_error_still_yields_minioUrl:
  "setBucketPolicy (the_minio policy_denied_world) ''podcast'' = Inl (Error ''AccessDenied'') \<and>
   POST_approve policy_denied_world (Inr example_upload) =
     (JsonResponse 200 (ApproveBody
        \<lparr>ok_success = True, ok_jobId = ''job_1_a'',
         downloadUrl = ''https://minio2-api.aihub.ovh:443/podcast/podcast_job_1_a.mp3'',
         minioUrl = Some ''https://minio2-api.aihub.ovh:443/podcast/podcast_job_1_a.mp3'',
         filename = ''podcast_job_1_a.mp3'',
         ok_message = ''Audio generated successfully''\<rparr>),
      [CreateDialogue [\<lparr>input_text = ''Hi'', voiceId = ''FF7KdobWPaiR0vkcALHF''\<rparr>],
       FsAccess, FsWriteFile ''podcast_job_1_a.mp3'' [65, 66, 67],
       ImportMinio,
       NewClient \<lparr>endPoint = ''minio2-api.aihub.ovh'', port = Num 443, useSSL = True,
                  accessKey = ''access'', secretKey = ''secret''\<rparr>,
       BucketExists ''podcast'', SetBucketPolicy ''podcast'',
       PutObject ''podcast'' ''podcast_job_1_a.mp3'' [65, 66, 67] 3,
       GetBucketPolicy ''podcast''])"
proof -
  have "setBucketPolicy (the_minio policy_denied_world) ''podcast'' = Inl (Error ''AccessDenied'')"
    by (simp add: policy_denied_world_def)
  moreover from example_upload_approve [OF policy_denied_upload_eval [unfolded policy_denied_world_def]]
  have "POST_approve policy_denied_world (Inr example_upload) =
     (JsonResponse 200 (ApproveBody
        \<lparr>ok_success = True, ok_jobId = ''job_1_a'',
         downloadUrl = ''https://minio2-api.aihub.ovh:443/podcast/podcast_job_1_a.mp3'',
         minioUrl = Some ''https://minio2-api.aihub.ovh:443/podcast/podcast_job_1_a.mp3'',
         filename = ''podcast_job_1_a.mp3'',
         ok_message = ''Audio generated successfully''\<rparr>),
      [CreateDialogue [\<lparr>input_text = ''Hi'', voiceId = ''FF7KdobWPaiR0vkcALHF''\<rparr>],
       FsAccess, FsWriteFile ''podcast_job_1_a.mp3'' [65, 66, 67],
       ImportMinio,
       NewClient \<lparr>endPoint = ''minio2-api.aihub.ovh'', port = Num 443, useSSL = True,
                  accessKey = ''access'', secretKey = ''secret''\<rparr>,
       BucketExists ''podcast'', SetBucketPolicy ''podcast'',
       PutObject ''podcast'' ''podcast_job_1_a.mp3'' [65, 66, 67] 3,
       GetBucketPolicy ''podcast''])"
    by (simp add: policy_denied_world_def or_default_def)
  ultimately show ?thesis by (rule conjI)
qed


text \<open>
  The example request with the upload: on the world whose store refuses the object, and
  on the world whose bucket is private and whose signing fails.
\<close>

theorem approve_survives_upload_failure_witness:
  "(\<exists>t. POST_approve put_failure_world (Inr example_upload) =
      (JsonResponse 200 (ApproveBody
         \<lparr>ok_success = True, ok_jobId = ''job_1_a'',
          downloadUrl = ''http://localhost:3000/api/webhook/download/job_1_a'',
          minioUrl = None,
          filename = ''podcast_job_1_a.mp3'',
          ok_message = ''Audio generated successfully''\<rparr>), t) \<and>
      FsWriteFile ''podcast_job_1_a.mp3'' [65, 66, 67] \<in> set t) \<and>
   presignedGetObject (the_minio sign_failure_world) ''podcast'' ''podcast_job_1_a.mp3'' 604800 =
     Inl (Error ''SignatureDoesNotMatch'') \<and>
   (\<exists>u t. POST_approve sign_failure_world (Inr example_upload) =
      (JsonResponse 200 (ApproveBody
         \<lparr>ok_success = True, ok_jobId = ''job_1_a'',
          downloadUrl = or_default (Some u) ''http://localhost:3000/api/webhook/download/job_1_a'',
          minioUrl = Some u,
          filename = ''podcast_job_1_a.mp3'',
          ok_message = ''Audio generated successfully''\<rparr>), t) \<and>
      FsWriteFile ''podcast_job_1_a.mp3'' [65, 66, 67] \<in> set t \<and>
      SetBucketPolicy ''podcast'' \<in> set t \<and> GetBucketPolicy ''podcast'' \<in> set t)"
proof -
  let ?conv = "[\<lparr>speaker = ''Speaker1'', utterance = ''Hi''\<rparr>]"
  have 1: "req_conversation example_upload = Some ?conv" and 2: "?conv \<noteq> []"
    and 3: "req_jobId example_upload = Some ''job_1_a''" and 4: "''job_1_a'' \<noteq> []"
    and 5: "req_uploadToMinIO example_upload = Some True"
    and t: "req_title example_upload = None"
    by (simp_all add: example_upload_def example_approve_def)
  have 9: "''podcast_job_1_a.mp3'' =
      safeTitle (or_default (req_title example_upload) ''podcast'') @ ''_'' @ ''job_1_a'' @ ''.mp3''"
    using example_file by (simp add: t or_default_None artifactFilename_def)
  have 10: "''podcast_job_1_a.mp3'' =
      safeTitle (nullish_default (req_title example_upload) ''podcast'') @ ''_'' @ ''job_1_a'' @ ''.mp3''"
    using example_file by (simp add: t nullish_default_def artifactFilename_def)
  have w: "put_failure_world = example_world\<lparr>the_minio := the_minio put_failure_world\<rparr>"
    "sign_failure_world = example_world\<lparr>the_minio := the_minio sign_failure_world\<rparr>"
    by (simp_all add: put_failure_world_def sign_failure_world_def)
  have loc: "createDialogue (example_world\<lparr>the_minio := m\<rparr>) (dialogueInputs ?conv
         (or_default (req_voice1 example_upload) ''FF7KdobWPaiR0vkcALHF'')
         (or_default (req_voice2 example_upload) ''BpjGufoPiobT79j2vtj4'')) = Inr (Ok ''QUJD'')"
    "access (the_fs (example_world\<lparr>the_minio := m\<rparr>)) = Inr () \<or>
       mkdir (the_fs (example_world\<lparr>the_minio := m\<rparr>)) = Inr ()"
    "[65, 66, 67] = Buffer_from_base64 (example_world\<lparr>the_minio := m\<rparr>) (base64Data ''QUJD'')"
    "writeFile (the_fs (example_world\<lparr>the_minio := m\<rparr>)) ''podcast_job_1_a.mp3'' [65, 66, 67] = Inr ()"
    "or_default (env (example_world\<lparr>the_minio := m\<rparr>) ''NEXT_PUBLIC_APP_URL'') ''http://localhost:3000''
      @ ''/api/webhook/download/'' @ ''job_1_a'' = ''http://localhost:3000/api/webhook/download/job_1_a''"
    "bucketName (example_world\<lparr>the_minio := m\<rparr>) = ''podcast''"
    "truthy (env (example_world\<lparr>the_minio := m\<rparr>) ''MINIO_ACCESS_KEY'')"
    "truthy (env (example_world\<lparr>the_minio := m\<rparr>) ''MINIO_SECRET_KEY'')"
    for m
    by (simp_all add: example_world_sel example_fs_def base64Data_def or_default_None example_bucket
        truthy_def)
  note th = approve_survives_upload_failure [OF 1 2 3 4 5 _ _ _ 9 10]
  have "\<exists>e. putObject (the_minio put_failure_world) (bucketName put_failure_world)
      ''podcast_job_1_a.mp3'' [65, 66, 67] (length [65, 66, 67 :: 8 word]) = Inl e"
    by (simp add: put_failure_world_def)
  with th [of put_failure_world "''QUJD''" "[65, 66, 67]", THEN conjunct1]
    loc [of "the_minio put_failure_world", folded w]
  have a: "\<exists>t. POST_approve put_failure_world (Inr example_upload) =
      (JsonResponse 200 (ApproveBody
         \<lparr>ok_success = True, ok_jobId = ''job_1_a'',
          downloadUrl = ''http://localhost:3000/api/webhook/download/job_1_a'',
          minioUrl = None,
          filename = ''podcast_job_1_a.mp3'',
          ok_message = ''Audio generated successfully''\<rparr>), t) \<and>
      FsWriteFile ''podcast_job_1_a.mp3'' [65, 66, 67] \<in> set t"
    by simp
  have s: "presignedGetObject (the_minio sign_failure_world) ''podcast'' ''podcast_job_1_a.mp3'' 604800 =
     Inl (Error ''SignatureDoesNotMatch'')"
    by (simp add: sign_failure_world_def)
  have ok: "import_minio (the_minio sign_failure_world) = Inr ()"
    "new_Client (the_minio sign_failure_world) (clientOptions sign_failure_world) = Inr ()"
    "bucketExists (the_minio sign_failure_world) (bucketName sign_failure_world) = Inr True"
    "putObject (the_minio sign_failure_world) (bucketName sign_failure_world)
      ''podcast_job_1_a.mp3'' [65, 66, 67] (length [65, 66, 67 :: 8 word]) = Inr ()"
    by (simp_all add: sign_failure_world_def public_minio_def)
  with th [of sign_failure_world "''QUJD''" "[65, 66, 67]", THEN conjunct2]
    loc [of "the_minio sign_failure_world", folded w]
  have b: "\<exists>u t. POST_approve sign_failure_world (Inr example_upload) =
      (JsonResponse 200 (ApproveBody
         \<lparr>ok_success = True, ok_jobId = ''job_1_a'',
          downloadUrl = or_default (Some u) ''http://localhost:3000/api/webhook/download/job_1_a'',
          minioUrl = Some u,
          filename = ''podcast_job_1_a.mp3'',
          ok_message = ''Audio generated successfully''\<rparr>), t) \<and>
      FsWriteFile ''podcast_job_1_a.mp3'' [65, 66, 67] \<in> set t \<and>
      SetBucketPolicy ''podcast'' \<in> set t \<and> GetBucketPolicy ''podcast'' \<in> set t"
    by simp
  from a s b show ?thesis by blast
qed

end
